theory Spec2Isabelle
  imports Main "HOL-Library.Sublist"
begin

section \<open>Values of the script and the object store\<close>

text \<open>
  The script \<^verbatim>\<open>script.js\<close> keeps its playlist in a global variable that holds whatever
  \<^verbatim>\<open>JSON.parse\<close> returned, the literal \<^verbatim>\<open>[]\<close>, or the built-in demo array, and
  callers of \<^verbatim>\<open>add\<close> may push any value. Values are therefore the values of JSON
  together with \<^verbatim>\<open>undefined\<close>. Arrays and objects are references into a store, as in
  the language: \<^verbatim>\<open>playlist.push\<close> updates the array in place, and
  \<^verbatim>\<open>playlist.indexOf(it)\<close> compares references, so equality of \<open>jsval\<close> is the
  strict equality \<^verbatim>\<open>===\<close> of the script. Numbers are integers here: the script only
  tests numbers for truthiness, compares a length with \<open>0\<close> and uses them as indices.
  A string is the list of its code units; every literal of the script is ASCII.
\<close>

type_synonym addr = nat

datatype jsval = JUndefined | JNull | JBool bool | JNum int | JStr string | JRef addr

datatype jsobj = JObject "(string \<times> jsval) list" | JArray "jsval list"

record heap =
  cells :: "addr \<Rightarrow> jsobj"
  fresh :: addr

text \<open>An object or array literal allocates the next free address.\<close>

definition alloc :: "jsobj \<Rightarrow> heap \<Rightarrow> jsval \<times> heap" where
  "alloc obj h = (JRef (fresh h), h\<lparr>cells := (cells h)(fresh h := obj), fresh := Suc (fresh h)\<rparr>)"

datatype error = TypeError

text \<open>Truthiness, as \<^verbatim>\<open>!v\<close>, \<^verbatim>\<open>a || b\<close> and \<^verbatim>\<open>if (v)\<close> read it.\<close>

fun truthy :: "jsval \<Rightarrow> bool" where
  "truthy JUndefined = False"
| "truthy JNull = False"
| "truthy (JBool b) = b"
| "truthy (JNum n) = (n \<noteq> 0)"
| "truthy (JStr s) = (s \<noteq> [])"
| "truthy (JRef a) = True"

definition js_or :: "jsval \<Rightarrow> jsval \<Rightarrow> jsval" where
  "js_or a b = (if truthy a then a else b)"

text \<open>Reading a property of \<^verbatim>\<open>null\<close> or \<^verbatim>\<open>undefined\<close> raises a TypeError.\<close>

fun nullish :: "jsval \<Rightarrow> bool" where
  "nullish JUndefined = True"
| "nullish JNull = True"
| "nullish v = False"

text \<open>
  \<open>get_prop h v name\<close> is \<^verbatim>\<open>v.name\<close> for a receiver that is not nullish and for the
  property names the script reads (\<^verbatim>\<open>title\<close>, \<^verbatim>\<open>logo\<close>, \<^verbatim>\<open>lang\<close>,
  \<^verbatim>\<open>stream_url\<close>, \<^verbatim>\<open>stream\<close>, \<^verbatim>\<open>length\<close>): an own property of an object, the
  length of an array or string, and \<^verbatim>\<open>undefined\<close> otherwise. Every use below is behind
  the check the script makes before it, or raises where the script raises.
\<close>

definition get_prop :: "heap \<Rightarrow> jsval \<Rightarrow> string \<Rightarrow> jsval" where
  "get_prop h v name =
     (case v of
        JStr s \<Rightarrow> if name = ''length'' then JNum (int (length s)) else JUndefined
      | JRef a \<Rightarrow>
          (case cells h a of
             JObject fs \<Rightarrow> (case map_of fs name of Some w \<Rightarrow> w | None \<Rightarrow> JUndefined)
           | JArray xs \<Rightarrow> if name = ''length'' then JNum (int (length xs)) else JUndefined)
      | _ \<Rightarrow> JUndefined)"

text \<open>The decimal name of an integer index, as \<^verbatim>\<open>obj[index]\<close> forms it.\<close>

fun string_of_nat :: "nat \<Rightarrow> string" where
  "string_of_nat n =
     (if n < 10 then [''0123456789'' ! n]
      else string_of_nat (n div 10) @ [''0123456789'' ! (n mod 10)])"

definition string_of_int :: "int \<Rightarrow> string" where
  "string_of_int i =
     (if i < 0 then CHR ''-'' # string_of_nat (nat (- i)) else string_of_nat (nat i))"

text \<open>
  \<open>get_index h v i\<close> is \<^verbatim>\<open>v[i]\<close> for an integer \<open>i\<close> and a receiver that is not
  nullish: an element of an array, a one-character string of a string, the property
  named by the decimal form of \<open>i\<close> of an object, and \<^verbatim>\<open>undefined\<close> out of range.
\<close>

definition get_index :: "heap \<Rightarrow> jsval \<Rightarrow> int \<Rightarrow> jsval" where
  "get_index h v i =
     (case v of
        JStr s \<Rightarrow> if 0 \<le> i \<and> i < int (length s) then JStr [s ! nat i] else JUndefined
      | JRef a \<Rightarrow>
          (case cells h a of
             JArray xs \<Rightarrow> if 0 \<le> i \<and> i < int (length xs) then xs ! nat i else JUndefined
           | JObject fs \<Rightarrow>
               (case map_of fs (string_of_int i) of Some w \<Rightarrow> w | None \<Rightarrow> JUndefined))
      | _ \<Rightarrow> JUndefined)"

text \<open>\<^verbatim>\<open>Array.isArray(v)\<close>, with the elements when it holds.\<close>

definition array_elems :: "heap \<Rightarrow> jsval \<Rightarrow> jsval list option" where
  "array_elems h v =
     (case v of
        JRef a \<Rightarrow> (case cells h a of JArray xs \<Rightarrow> Some xs | JObject fs \<Rightarrow> None)
      | _ \<Rightarrow> None)"

text \<open>\<^verbatim>\<open>s.includes(pat)\<close> on strings: \<open>pat\<close> occurs in \<open>s\<close> as a contiguous run.\<close>

fun str_includes :: "string \<Rightarrow> string \<Rightarrow> bool" where
  "str_includes [] pat = (pat = [])"
| "str_includes (c # cs) pat = (prefix pat (c # cs) \<or> str_includes cs pat)"

text \<open>
  \<^verbatim>\<open>v.includes(pat)\<close> on a truthy value or the empty string: the substring test on a
  string, the membership test on an array, and a TypeError on a number, a boolean or an
  object, which have no callable \<^verbatim>\<open>includes\<close>.
\<close>

definition js_includes :: "heap \<Rightarrow> jsval \<Rightarrow> string \<Rightarrow> error + bool" where
  "js_includes h v pat =
     (case v of
        JStr u \<Rightarrow> Inr (str_includes u pat)
      | JRef a \<Rightarrow>
          (case cells h a of
             JArray xs \<Rightarrow> Inr (List.member xs (JStr pat))
           | JObject fs \<Rightarrow> Inl TypeError)
      | _ \<Rightarrow> Inl TypeError)"

text \<open>\<^verbatim>\<open>xs.indexOf(v)\<close>: the first position holding a value strictly equal to \<open>v\<close>.\<close>

fun indexOf :: "jsval list \<Rightarrow> jsval \<Rightarrow> nat option" where
  "indexOf [] v = None"
| "indexOf (x # xs) v = (if x = v then Some 0 else map_option Suc (indexOf xs v))"

section \<open>The platform\<close>

text \<open>
  The built-in functions the script calls are parameters of the model, so that every
  theorem holds for each implementation of them. \<open>JSON_parse\<close> returns \<open>None\<close> where
  \<^verbatim>\<open>JSON.parse\<close> raises, and allocates the arrays and objects of its result;
  \<open>JSON_stringify\<close> returns \<open>None\<close> where \<^verbatim>\<open>JSON.stringify\<close> raises (a cyclic
  value). Reads and writes of \<^verbatim>\<open>localStorage\<close> themselves succeed.
\<close>

record platform =
  JSON_parse :: "string \<Rightarrow> heap \<Rightarrow> (jsval \<times> heap) option"
  JSON_stringify :: "heap \<Rightarrow> jsval \<Rightarrow> string option"
  trim :: "string \<Rightarrow> string"
  toLowerCase :: "string \<Rightarrow> string"
  String_indexOf :: "heap \<Rightarrow> string \<Rightarrow> jsval \<Rightarrow> int"

section \<open>The page and the state of the script\<close>

text \<open>
  A click handler is a closure of the script: \<open>PlayIndex i\<close> is
  \<^verbatim>\<open>() => playListItem(i)\<close> of \<^verbatim>\<open>buildPlaylistUI\<close>, and \<open>PlayTrack it\<close> is the
  handler of \<^verbatim>\<open>searchPlaylist\<close>, which keeps the track \<open>it\<close> and looks its index up
  when it runs.
\<close>

datatype handler = PlayIndex int | PlayTrack jsval

text \<open>
  A rendered \<^verbatim>\<open>li.player-list-item\<close>. The values written into its markup are kept as
  they are before the page turns them into text.
\<close>

record list_item =
  dataset_index :: "nat option"
  img_src :: jsval
  img_alt :: jsval
  span_text :: jsval
  active :: bool
  onclick :: handler

datatype content = Blank | Message string | PlayerList "list_item list"

text \<open>
  The page has at most one mount point for the playlist. It may carry the id
  \<^verbatim>\<open>playlist-root\<close>, the class \<^verbatim>\<open>playlist-root\<close>, or both, and its list items are the
  only elements of class \<^verbatim>\<open>player-list-item\<close> in the page.
\<close>

record container =
  el_id :: string
  el_classes :: "string list"
  content :: content

record media =
  src :: jsval

text \<open>
  An instance made by \<^verbatim>\<open>new Hls()\<close>: the URL given to \<^verbatim>\<open>loadSource\<close>, whether
  \<^verbatim>\<open>attachMedia(playerElement)\<close> and \<^verbatim>\<open>on(MANIFEST_PARSED, ...)\<close> were called on it,
  and its \<^verbatim>\<open>currentLevel\<close>.
\<close>

record hls =
  source :: jsval
  media_attached :: bool
  manifest_listener :: bool
  currentLevel :: int

record level =
  height :: int
  bitrate :: int

record state =
  heap :: heap
  playlist :: jsval
  isPlaying :: bool
  localStorage :: "string \<Rightarrow> string option"
  mount :: "container option"
  playerElement :: "media option"
  playerTitle :: "jsval option"
  window_Hls :: bool
  Hls_isSupported :: bool
  hls_instances :: "hls list"
  plyr_play_calls :: nat
  plyr_quality_options :: "jsval list"
  quality_listeners :: "(nat \<times> jsval list) list"
  timers :: nat
  themeToggleEl :: "string option"
  data_theme :: "string option"
  searchInput_focused :: "bool option"
  modal_open :: "bool option"
  defaults_prevented :: nat

text \<open>
  A call returns, or raises with the state as the statements before the raise left it.
\<close>

datatype completion = Return state | Throw error state

fun state_of :: "completion \<Rightarrow> state" where
  "state_of (Return s) = s"
| "state_of (Throw e s) = s"

fun returns :: "completion \<Rightarrow> bool" where
  "returns (Return s) = True"
| "returns (Throw e s) = False"

definition DEFAULT_EMPTY_MESSAGE :: string where
  "DEFAULT_EMPTY_MESSAGE = ''No results''"

definition getElementById :: "state \<Rightarrow> string \<Rightarrow> container option" where
  "getElementById s i =
     (case mount s of None \<Rightarrow> None | Some c \<Rightarrow> if el_id c = i then Some c else None)"

definition querySelector_class :: "state \<Rightarrow> string \<Rightarrow> container option" where
  "querySelector_class s cl =
     (case mount s of None \<Rightarrow> None | Some c \<Rightarrow> if cl \<in> set (el_classes c) then Some c else None)"

section \<open>Rendering the playlist\<close>

text \<open>
  The body of \<^verbatim>\<open>playlist.forEach\<close> in \<^verbatim>\<open>buildPlaylistUI\<close>. It reads
  \<^verbatim>\<open>item.title\<close> with no check of \<open>item\<close>, so a nullish element raises.
\<close>

fun build_items :: "heap \<Rightarrow> jsval list \<Rightarrow> nat \<Rightarrow> error + list_item list" where
  "build_items h [] i = Inr []"
| "build_items h (item # rest) i =
     (if nullish item then Inl TypeError
      else
        (case build_items h rest (Suc i) of
           Inl e \<Rightarrow> Inl e
         | Inr lis \<Rightarrow>
             Inr (\<lparr>dataset_index = Some i,
                   img_src = js_or (get_prop h item ''logo'') (JStr ''''),
                   img_alt = js_or (get_prop h item ''title'') (JStr ''Untitled''),
                   span_text = js_or (get_prop h item ''title'') (JStr ''Untitled''),
                   active = False,
                   onclick = PlayIndex (int i)\<rparr> # lis)))"

definition buildPlaylistUI :: "string \<Rightarrow> state \<Rightarrow> completion" where
  "buildPlaylistUI containerId s =
     (case (case getElementById s containerId of
              Some c \<Rightarrow> Some c
            | None \<Rightarrow> querySelector_class s ''playlist-root'') of
        None \<Rightarrow> Return s
      | Some container \<Rightarrow>
          (case array_elems (heap s) (playlist s) of
             None \<Rightarrow>
               Return (s\<lparr>mount := Some (container\<lparr>content := Message DEFAULT_EMPTY_MESSAGE\<rparr>)\<rparr>)
           | Some xs \<Rightarrow>
               if xs = [] then
                 Return (s\<lparr>mount := Some (container\<lparr>content := Message DEFAULT_EMPTY_MESSAGE\<rparr>)\<rparr>)
               else
                 (case build_items (heap s) xs 0 of
                    Inl e \<Rightarrow> Throw e s
                  | Inr lis \<Rightarrow>
                      Return (s\<lparr>mount := Some (container\<lparr>content := PlayerList lis\<rparr>)\<rparr>))))"

section \<open>Playing a track\<close>

text \<open>
  \<^verbatim>\<open>listItems.forEach((el, idx) => el.classList.toggle('active', idx === index))\<close> over
  the list items of the page.
\<close>

definition mark_active :: "int \<Rightarrow> container \<Rightarrow> container" where
  "mark_active index c =
     (case content c of
        PlayerList lis \<Rightarrow>
          c\<lparr>content :=
              PlayerList (map (\<lambda>(idx, el). el\<lparr>active := (int idx = index)\<rparr>) (enumerate 0 lis))\<rparr>
      | _ \<Rightarrow> c)"

text \<open>\<^verbatim>\<open>item.stream_url || item.stream || ''\<close>, for a truthy \<open>item\<close>.\<close>

definition resolve_url :: "heap \<Rightarrow> jsval \<Rightarrow> jsval" where
  "resolve_url h item =
     js_or (get_prop h item ''stream_url'') (js_or (get_prop h item ''stream'') (JStr ''''))"

text \<open>
  The Hls branch: \<^verbatim>\<open>new Hls()\<close>, \<^verbatim>\<open>loadSource(url)\<close>,
  \<^verbatim>\<open>attachMedia(playerElement)\<close> and the registration of the manifest listener.
\<close>

definition attach_hls :: "jsval \<Rightarrow> state \<Rightarrow> state" where
  "attach_hls url s =
     s\<lparr>hls_instances :=
         hls_instances s @
           [\<lparr>source = url, media_attached = True, manifest_listener = True, currentLevel = - 1\<rparr>]\<rparr>"

text \<open>
  The fallback \<^verbatim>\<open>playerElement.src = url\<close>; \<^verbatim>\<open>playerElement\<close> is \<^verbatim>\<open>null\<close> when the
  page has no element of id \<^verbatim>\<open>player-element\<close>, and the assignment raises then.
\<close>

definition assign_src :: "jsval \<Rightarrow> state \<Rightarrow> completion" where
  "assign_src url s =
     (case playerElement s of
        None \<Rightarrow> Throw TypeError s
      | Some el \<Rightarrow> Return (s\<lparr>playerElement := Some (el\<lparr>src := url\<rparr>)\<rparr>))"

text \<open>
  The source-type decision of \<^verbatim>\<open>playListItem\<close>:
  \<^verbatim>\<open>window.Hls && Hls.isSupported() && url.includes('.m3u8')\<close>, evaluated left to right.
\<close>

definition attach_source :: "jsval \<Rightarrow> state \<Rightarrow> completion" where
  "attach_source url s =
     (if window_Hls s \<and> Hls_isSupported s then
        (case js_includes (heap s) url ''.m3u8'' of
           Inl e \<Rightarrow> Throw e s
         | Inr True \<Rightarrow> Return (attach_hls url s)
         | Inr False \<Rightarrow> assign_src url s)
      else assign_src url s)"

text \<open>The title label, \<^verbatim>\<open>plyrInstance.play()\<close> and \<^verbatim>\<open>isPlaying = true\<close>.\<close>

definition start_playback :: "jsval \<Rightarrow> state \<Rightarrow> state" where
  "start_playback item s =
     s\<lparr>playerTitle :=
         (case playerTitle s of
            None \<Rightarrow> None
          | Some old \<Rightarrow> Some (js_or (get_prop (heap s) item ''title'') (JStr ''''))),
       plyr_play_calls := Suc (plyr_play_calls s),
       isPlaying := True\<rparr>"

definition playListItem :: "int \<Rightarrow> state \<Rightarrow> completion" where
  "playListItem index s =
     (if nullish (playlist s) then Throw TypeError s
      else
        let item = get_index (heap s) (playlist s) index in
        if \<not> truthy item then Return s
        else
          (case attach_source (resolve_url (heap s) item)
                  (s\<lparr>mount := map_option (mark_active index) (mount s)\<rparr>) of
             Throw e s' \<Rightarrow> Throw e s'
           | Return s' \<Rightarrow> Return (start_playback item s')))"

section \<open>Searching\<close>

text \<open>
  The callback of \<^verbatim>\<open>playlist.filter\<close>: \<^verbatim>\<open>toLowerCase\<close> is called on a truthy title,
  which raises unless the title is a string.
\<close>

definition title_matches :: "platform \<Rightarrow> heap \<Rightarrow> string \<Rightarrow> jsval \<Rightarrow> error + bool" where
  "title_matches P h normalized it =
     (if \<not> truthy it \<or> \<not> truthy (get_prop h it ''title'') then Inr False
      else
        (case get_prop h it ''title'' of
           JStr t \<Rightarrow> Inr (str_includes (toLowerCase P t) normalized)
         | _ \<Rightarrow> Inl TypeError))"

fun filter_tracks :: "platform \<Rightarrow> heap \<Rightarrow> string \<Rightarrow> jsval list \<Rightarrow> error + jsval list" where
  "filter_tracks P h normalized [] = Inr []"
| "filter_tracks P h normalized (it # rest) =
     (case title_matches P h normalized it of
        Inl e \<Rightarrow> Inl e
      | Inr b \<Rightarrow>
          (case filter_tracks P h normalized rest of
             Inl e \<Rightarrow> Inl e
           | Inr ys \<Rightarrow> Inr (if b then it # ys else ys)))"

text \<open>The list item \<^verbatim>\<open>searchPlaylist\<close> builds for a track that passed the filter.\<close>

definition filtered_item :: "heap \<Rightarrow> jsval \<Rightarrow> list_item" where
  "filtered_item h it =
     \<lparr>dataset_index = None,
      img_src = js_or (get_prop h it ''logo'') (JStr ''''),
      img_alt = js_or (get_prop h it ''title'') (JStr ''''),
      span_text = get_prop h it ''title'',
      active = False,
      onclick = PlayTrack it\<rparr>"

definition searchPlaylist :: "platform \<Rightarrow> string \<Rightarrow> state \<Rightarrow> completion" where
  "searchPlaylist P query s =
     (let normalized = toLowerCase P (trim P query) in
      if normalized = [] then buildPlaylistUI ''playlist-root'' s
      else
        (case array_elems (heap s) (playlist s) of
           None \<Rightarrow> Throw TypeError s
         | Some xs \<Rightarrow>
             (case filter_tracks P (heap s) normalized xs of
                Inl e \<Rightarrow> Throw e s
              | Inr filtered \<Rightarrow>
                  (case getElementById s ''playlist-root'' of
                     None \<Rightarrow> Return s
                   | Some root \<Rightarrow>
                       if filtered = [] then
                         Return (s\<lparr>mount := Some (root\<lparr>content := Message DEFAULT_EMPTY_MESSAGE\<rparr>)\<rparr>)
                       else
                         Return (s\<lparr>mount :=
                           Some (root\<lparr>content :=
                             PlayerList (map (filtered_item (heap s)) filtered)\<rparr>)\<rparr>)))))"

text \<open>
  A click on a list item runs its handler. The handler of a filtered item calls
  \<^verbatim>\<open>playlist.indexOf(it)\<close> on the playlist of the moment of the click: the array
  search, the string search of the platform when the playlist is a string, and a
  TypeError on any other value.
\<close>

fun run_handler :: "platform \<Rightarrow> handler \<Rightarrow> state \<Rightarrow> completion" where
  "run_handler P (PlayIndex i) s = playListItem i s"
| "run_handler P (PlayTrack it) s =
     (case playlist s of
        JStr str \<Rightarrow>
          (let realIndex = String_indexOf P (heap s) str it in
           if realIndex \<noteq> - 1 then playListItem realIndex s else Return s)
      | _ \<Rightarrow>
          (case array_elems (heap s) (playlist s) of
             None \<Rightarrow> Throw TypeError s
           | Some xs \<Rightarrow>
               (case indexOf xs it of
                  None \<Rightarrow> Return s
                | Some realIndex \<Rightarrow> playListItem (int realIndex) s)))"

definition list_items :: "state \<Rightarrow> list_item list" where
  "list_items s =
     (case mount s of
        None \<Rightarrow> []
      | Some c \<Rightarrow> (case content c of PlayerList lis \<Rightarrow> lis | _ \<Rightarrow> []))"

definition click :: "platform \<Rightarrow> nat \<Rightarrow> state \<Rightarrow> completion" where
  "click P k s =
     (if k < length (list_items s) then run_handler P (onclick (list_items s ! k)) s
      else Return s)"

section \<open>Theme, keyboard and the adaptive-streaming callbacks\<close>

text \<open>The two icons, as the UTF-8 bytes of the script's literals.\<close>

definition ICON_LIGHT :: string where
  "ICON_LIGHT = [CHR 0xE2, CHR 0x98, CHR 0x80, CHR 0xEF, CHR 0xB8, CHR 0x8F]"

definition ICON_DARK :: string where
  "ICON_DARK = [CHR 0xF0, CHR 0x9F, CHR 0x8C, CHR 0x99]"

definition localThemeKey :: string where
  "localThemeKey = ''player-theme''"

definition theme_icon :: "string \<Rightarrow> string" where
  "theme_icon t = (if t = ''light'' then ICON_LIGHT else ICON_DARK)"

definition set_theme :: "string \<Rightarrow> state \<Rightarrow> state" where
  "set_theme t s =
     s\<lparr>data_theme := Some t,
       themeToggleEl := map_option (\<lambda>old. theme_icon t) (themeToggleEl s)\<rparr>"

definition initializeTheme :: "state \<Rightarrow> state" where
  "initializeTheme s =
     (case localStorage s localThemeKey of
        Some saved \<Rightarrow>
          if saved \<noteq> [] then set_theme saved s
          else (set_theme ''dark'' s)\<lparr>localStorage := (localStorage s)(localThemeKey \<mapsto> ''dark'')\<rparr>
      | None \<Rightarrow>
          (set_theme ''dark'' s)\<lparr>localStorage := (localStorage s)(localThemeKey \<mapsto> ''dark'')\<rparr>)"

text \<open>The click handler of the theme toggle, installed only when the toggle exists.\<close>

definition toggle_theme :: "state \<Rightarrow> state" where
  "toggle_theme s =
     (case themeToggleEl s of
        None \<Rightarrow> s
      | Some old \<Rightarrow>
          (let current = (case data_theme s of
                            None \<Rightarrow> ''dark''
                          | Some t \<Rightarrow> if t = [] then ''dark'' else t);
               next = (if current = ''light'' then ''dark'' else ''light'')
           in (set_theme next s)\<lparr>localStorage := (localStorage s)(localThemeKey \<mapsto> next)\<rparr>))"

definition handleKeydown :: "string \<Rightarrow> state \<Rightarrow> state" where
  "handleKeydown key s =
     (if \<not> isPlaying s \<and> (key = '' '' \<or> key = ''Enter'') then
        s\<lparr>defaults_prevented := Suc (defaults_prevented s),
          plyr_play_calls := Suc (plyr_play_calls s),
          isPlaying := True\<rparr>
      else
        (let s1 = (if key = ''/'' then
                     s\<lparr>defaults_prevented := Suc (defaults_prevented s),
                       searchInput_focused := map_option (\<lambda>old. True) (searchInput_focused s)\<rparr>
                   else s)
         in if key = ''Escape'' then s1\<lparr>modal_open := map_option (\<lambda>old. False) (modal_open s1)\<rparr>
            else s1))"

text \<open>
  The listener of \<^verbatim>\<open>MANIFEST_PARSED\<close> that \<^verbatim>\<open>playListItem\<close> registers on the \<open>n\<close>-th
  Hls instance, run with the levels the library reports (\<open>None\<close> for a missing
  \<^verbatim>\<open>hls.levels\<close>): it sets the quality options of the player and adds a listener of
  \<^verbatim>\<open>qualitychange\<close> that closes over the instance and the options.
\<close>

definition quality_label :: "level \<Rightarrow> jsval" where
  "quality_label l = JStr (string_of_int (height l) @ ''p @ '' @ string_of_int (bitrate l))"

definition manifest_parsed :: "nat \<Rightarrow> level list option \<Rightarrow> state \<Rightarrow> state" where
  "manifest_parsed n lv s =
     (if n < length (hls_instances s) \<and> manifest_listener (hls_instances s ! n) then
        (let qualityOptions = map quality_label (case lv of None \<Rightarrow> [] | Some ls \<Rightarrow> ls)
         in s\<lparr>plyr_quality_options := qualityOptions,
              quality_listeners := quality_listeners s @ [(n, qualityOptions)]\<rparr>)
      else s)"

text \<open>
  A \<^verbatim>\<open>qualitychange\<close> event of the player with \<^verbatim>\<open>ev.detail.quality = q\<close>: every
  registered listener sets the current level of its instance to
  \<^verbatim>\<open>qualityOptions.indexOf(q)\<close>.
\<close>

fun quality_change :: "jsval \<Rightarrow> (nat \<times> jsval list) list \<Rightarrow> hls list \<Rightarrow> hls list" where
  "quality_change q [] hs = hs"
| "quality_change q ((n, qualityOptions) # rest) hs =
     quality_change q rest
       (if n < length hs then
          hs[n := (hs ! n)\<lparr>currentLevel :=
                     (case indexOf qualityOptions q of None \<Rightarrow> - 1 | Some i \<Rightarrow> int i)\<rparr>]
        else hs)"

section \<open>Loading and extending the playlist\<close>

text \<open>
  The first block of the \<^verbatim>\<open>DOMContentLoaded\<close> handler: a stored string that is not
  empty is parsed, and \<^verbatim>\<open>catch\<close> turns a raise of \<^verbatim>\<open>JSON.parse\<close> into \<^verbatim>\<open>[]\<close>.
\<close>

definition load_saved :: "platform \<Rightarrow> state \<Rightarrow> state" where
  "load_saved P s =
     (case localStorage s ''player-playlist'' of
        None \<Rightarrow> s
      | Some savedPlaylistJson \<Rightarrow>
          if savedPlaylistJson = [] then s
          else
            (case JSON_parse P savedPlaylistJson (heap s) of
               Some (v, h') \<Rightarrow> s\<lparr>heap := h', playlist := v\<rparr>
             | None \<Rightarrow>
                 (case alloc (JArray []) (heap s) of
                    (v, h') \<Rightarrow> s\<lparr>heap := h', playlist := v\<rparr>)))"

definition demo_track_1 :: jsobj where
  "demo_track_1 =
     JObject [(''title'', JStr ''Demo Channel 1''),
              (''stream_url'', JStr ''https://example.com/stream1.m3u8''),
              (''logo'', JStr ''''), (''lang'', JStr ''en'')]"

definition demo_track_2 :: jsobj where
  "demo_track_2 =
     JObject [(''title'', JStr ''Demo Channel 2''),
              (''stream_url'', JStr ''https://example.com/stream2.mp4''),
              (''logo'', JStr ''''), (''lang'', JStr ''en'')]"

text \<open>The second block: \<^verbatim>\<open>if (!playlist || playlist.length === 0)\<close> and the demo array.\<close>

definition needs_fallback :: "heap \<Rightarrow> jsval \<Rightarrow> bool" where
  "needs_fallback h v = (\<not> truthy v \<or> get_prop h v ''length'' = JNum 0)"

definition demo_fallback :: "state \<Rightarrow> state" where
  "demo_fallback s =
     (if needs_fallback (heap s) (playlist s) then
        (case alloc demo_track_1 (heap s) of
           (t1, h1) \<Rightarrow>
             (case alloc demo_track_2 h1 of
                (t2, h2) \<Rightarrow>
                  (case alloc (JArray [t1, t2]) h2 of
                     (arr, h3) \<Rightarrow> s\<lparr>heap := h3, playlist := arr\<rparr>)))
      else s)"

text \<open>
  The whole handler: both blocks, the rendering, and the timer that will call
  \<^verbatim>\<open>playListItem(0)\<close>.
\<close>

definition DOMContentLoaded :: "platform \<Rightarrow> state \<Rightarrow> completion" where
  "DOMContentLoaded P s =
     (case buildPlaylistUI ''playlist-root'' (demo_fallback (load_saved P s)) of
        Throw e s' \<Rightarrow> Throw e s'
      | Return s' \<Rightarrow> Return (s'\<lparr>timers := Suc (timers s')\<rparr>))"

definition timer_fired :: "state \<Rightarrow> completion" where
  "timer_fired s =
     (if timers s = 0 then Return s else playListItem 0 (s\<lparr>timers := timers s - 1\<rparr>))"

text \<open>
  \<^verbatim>\<open>playlist.push(item)\<close>: an update in place of the array the variable refers to, and
  a TypeError when the playlist is not an array.
\<close>

definition push :: "jsval \<Rightarrow> state \<Rightarrow> state option" where
  "push item s =
     (case playlist s of
        JRef a \<Rightarrow>
          (case cells (heap s) a of
             JArray xs \<Rightarrow>
               Some (s\<lparr>heap := (heap s)\<lparr>cells := (cells (heap s))(a := JArray (xs @ [item]))\<rparr>\<rparr>)
           | JObject fs \<Rightarrow> None)
      | _ \<Rightarrow> None)"

definition addToPlaylist :: "platform \<Rightarrow> jsval \<Rightarrow> state \<Rightarrow> completion" where
  "addToPlaylist P item s =
     (case push item s of
        None \<Rightarrow> Throw TypeError s
      | Some s1 \<Rightarrow>
          (case JSON_stringify P (heap s1) (playlist s1) of
             None \<Rightarrow> Throw TypeError s1
           | Some json \<Rightarrow>
               buildPlaylistUI ''playlist-root''
                 (s1\<lparr>localStorage := (localStorage s1)(''player-playlist'' \<mapsto> json)\<rparr>)))"

definition getPlaylist :: "state \<Rightarrow> jsval" where
  "getPlaylist s = playlist s"

section \<open>The script as a whole\<close>

text \<open>
  The top level of the script, run once on the page \<open>page\<close>: the variables
  \<^verbatim>\<open>playlist = []\<close> and \<^verbatim>\<open>isPlaying = false\<close>, the player with no quality options, and
  the theme.
\<close>

definition boot :: "state \<Rightarrow> state" where
  "boot page =
     (case alloc (JArray []) (heap page) of
        (arr, h) \<Rightarrow>
          initializeTheme
            (page\<lparr>heap := h, playlist := arr, isPlaying := False, hls_instances := [],
                  plyr_play_calls := 0, plyr_quality_options := [], quality_listeners := [],
                  timers := 0, defaults_prevented := 0\<rparr>))"

text \<open>
  After that the script only runs in response to events: the handlers it registered
  and the four functions it exports as \<^verbatim>\<open>window.myPlayerApp\<close>. The helpers
  \<^verbatim>\<open>once\<close> and \<^verbatim>\<open>createListItem\<close> are never called. What the two libraries do
  inside \<^verbatim>\<open>play\<close>, \<^verbatim>\<open>loadSource\<close> and \<^verbatim>\<open>attachMedia\<close>, and what other code does
  with the array it got from \<^verbatim>\<open>getPlaylist\<close>, is not part of the script: the state
  records the calls the script makes.
\<close>

datatype event =
    ContentLoaded
  | TimerFired
  | Keydown string
  | Click nat
  | ThemeToggleClick
  | ManifestParsed nat "level list option"
  | QualityChange jsval
  | PlayIndexCall int
  | SearchCall string
  | AddCall jsval
  | GetPlaylistCall

fun fire :: "platform \<Rightarrow> event \<Rightarrow> state \<Rightarrow> completion" where
  "fire P ContentLoaded s = DOMContentLoaded P s"
| "fire P TimerFired s = timer_fired s"
| "fire P (Keydown key) s = Return (handleKeydown key s)"
| "fire P (Click k) s = click P k s"
| "fire P ThemeToggleClick s = Return (toggle_theme s)"
| "fire P (ManifestParsed n lv) s = Return (manifest_parsed n lv s)"
| "fire P (QualityChange q) s =
     Return (s\<lparr>hls_instances := quality_change q (quality_listeners s) (hls_instances s)\<rparr>)"
| "fire P (PlayIndexCall i) s = playListItem i s"
| "fire P (SearchCall query) s = searchPlaylist P query s"
| "fire P (AddCall item) s = addToPlaylist P item s"
| "fire P GetPlaylistCall s = Return s"

text \<open>
  A raise ends the handler that raised; the page goes on, and the next event finds the
  state the raise left.
\<close>

fun run :: "platform \<Rightarrow> event list \<Rightarrow> state \<Rightarrow> state" where
  "run P [] s = s"
| "run P (ev # evs) s = run P evs (state_of (fire P ev s))"

section \<open>A concrete platform and concrete pages\<close>

text \<open>
  The theorems below hold for every platform. To run the script on concrete inputs, a
  small platform is fixed here: strings are ASCII, \<open>example_parse\<close> reads the few
  documents the examples store, and \<open>example_stringify\<close> writes values whose strings
  need no escape, with \<open>None\<close> for a value nested deeper than its fuel.
\<close>

definition ascii_lower :: "char \<Rightarrow> char" where
  "ascii_lower c =
     (case map_of (zip ''ABCDEFGHIJKLMNOPQRSTUVWXYZ'' ''abcdefghijklmnopqrstuvwxyz'') c of
        Some d \<Rightarrow> d
      | None \<Rightarrow> c)"

definition ascii_space :: "char \<Rightarrow> bool" where
  "ascii_space c = (c \<in> set [CHR '' '', CHR 0x09, CHR 0x0A, CHR 0x0B, CHR 0x0C, CHR 0x0D])"

definition ascii_trim :: "string \<Rightarrow> string" where
  "ascii_trim s = rev (dropWhile ascii_space (rev (dropWhile ascii_space s)))"

definition example_parse :: "string \<Rightarrow> heap \<Rightarrow> (jsval \<times> heap) option" where
  "example_parse str h =
     (if str = ''5'' then Some (JNum 5, h)
      else if str = ''0'' then Some (JNum 0, h)
      else if str = ''null'' then Some (JNull, h)
      else if str = ''true'' then Some (JBool True, h)
      else if str = ''{}'' then Some (alloc (JObject []) h)
      else if str = ''[]'' then Some (alloc (JArray []) h)
      else None)"

fun join_with :: "string \<Rightarrow> string list \<Rightarrow> string" where
  "join_with sep [] = []"
| "join_with sep [x] = x"
| "join_with sep (x # y # ys) = x @ sep @ join_with sep (y # ys)"

fun all_some :: "'a option list \<Rightarrow> 'a list option" where
  "all_some [] = Some []"
| "all_some (None # xs) = None"
| "all_some (Some x # xs) = map_option ((#) x) (all_some xs)"

fun example_stringify_fuel :: "nat \<Rightarrow> heap \<Rightarrow> jsval \<Rightarrow> string option" where
  "example_stringify_fuel 0 h v = None"
| "example_stringify_fuel (Suc n) h v =
     (case v of
        JUndefined \<Rightarrow> Some ''null''
      | JNull \<Rightarrow> Some ''null''
      | JBool b \<Rightarrow> Some (if b then ''true'' else ''false'')
      | JNum i \<Rightarrow> Some (string_of_int i)
      | JStr s \<Rightarrow> Some ([CHR 0x22] @ s @ [CHR 0x22])
      | JRef a \<Rightarrow>
          (case cells h a of
             JArray xs \<Rightarrow>
               map_option (\<lambda>parts. ''['' @ join_with '','' parts @ '']'')
                 (all_some (map (example_stringify_fuel n h) xs))
           | JObject fs \<Rightarrow>
               map_option (\<lambda>parts. ''{'' @ join_with '','' parts @ ''}'')
                 (all_some
                    (map (\<lambda>(k, w). map_option (\<lambda>t. [CHR 0x22] @ k @ [CHR 0x22] @ '':'' @ t)
                                       (example_stringify_fuel n h w))
                       (filter (\<lambda>(k, w). w \<noteq> JUndefined) fs)))))"

definition example_platform :: platform where
  "example_platform =
     \<lparr>JSON_parse = example_parse,
      JSON_stringify = example_stringify_fuel 8,
      trim = ascii_trim,
      toLowerCase = map ascii_lower,
      String_indexOf = (\<lambda>h str v. - 1)\<rparr>"

text \<open>
  The playlist of the scenario of the specification: \<^verbatim>\<open>Alpha\<close> with a direct source and
  \<^verbatim>\<open>Beta Show\<close> with a manifest, in an array at address \<open>0\<close>.
\<close>

definition example_heap :: heap where
  "example_heap =
     \<lparr>cells = (\<lambda>a. JObject [])
        (0 := JArray [JRef 1, JRef 2],
         1 := JObject [(''title'', JStr ''Alpha''), (''stream_url'', JStr ''a.mp4'')],
         2 := JObject [(''title'', JStr ''Beta Show''), (''stream_url'', JStr ''b.m3u8'')]),
      fresh = 3\<rparr>"

text \<open>
  A page with the mount point, the player element and the title label, and with the
  adaptive-streaming library present and supported.
\<close>

definition example_state :: state where
  "example_state =
     \<lparr>heap = example_heap,
      playlist = JRef 0,
      isPlaying = False,
      localStorage = Map.empty,
      mount = Some \<lparr>el_id = ''playlist-root'', el_classes = [], content = Blank\<rparr>,
      playerElement = Some \<lparr>src = JStr ''''\<rparr>,
      playerTitle = Some (JStr ''''),
      window_Hls = True,
      Hls_isSupported = True,
      hls_instances = [],
      plyr_play_calls = 0,
      plyr_quality_options = [],
      quality_listeners = [],
      timers = 0,
      themeToggleEl = None,
      data_theme = Some ''dark'',
      searchInput_focused = None,
      modal_open = None,
      defaults_prevented = 0\<rparr>"

text \<open>The same page when the manifest URL of the second track carries a query string.\<close>

definition manifest_query_state :: state where
  "manifest_query_state =
     example_state\<lparr>heap := example_heap\<lparr>cells := (cells example_heap)
       (2 := JObject [(''title'', JStr ''Beta Show''),
                      (''stream_url'', JStr ''b.m3u8?token=1'')])\<rparr>\<rparr>"

text \<open>A page whose only track has a title and no source at all.\<close>

definition no_source_state :: state where
  "no_source_state =
     example_state\<lparr>heap := \<lparr>cells = (\<lambda>a. JObject [])
        (0 := JArray [JRef 1], 1 := JObject [(''title'', JStr ''Silent'')]), fresh = 2\<rparr>\<rparr>"

text \<open>
  A page with three tracks: one with both legacy source fields, one with \<^verbatim>\<open>stream\<close>
  only and an empty \<^verbatim>\<open>stream_url\<close>, and one with neither.
\<close>

definition legacy_state :: state where
  "legacy_state =
     example_state\<lparr>heap := \<lparr>cells = (\<lambda>a. JObject [])
        (0 := JArray [JRef 1, JRef 2, JRef 3],
         1 := JObject [(''title'', JStr ''Both''), (''stream_url'', JStr ''new.mp4''),
                       (''stream'', JStr ''old.mp4'')],
         2 := JObject [(''title'', JStr ''Legacy''), (''stream_url'', JStr ''''),
                       (''stream'', JStr ''old.mp4'')],
         3 := JObject [(''title'', JStr ''Neither'')]), fresh = 4\<rparr>\<rparr>"

text \<open>
  The state right after the script has started on the example page with \<open>json\<close> stored
  under the key of the playlist.
\<close>

definition stored_state :: "string \<Rightarrow> state" where
  "stored_state json =
     boot (example_state\<lparr>localStorage := [''player-playlist'' \<mapsto> json]\<rparr>)"

section \<open>Basic facts\<close>

lemma array_elems_Some:
  "array_elems h v = Some xs \<longleftrightarrow> (\<exists>a. v = JRef a \<and> cells h a = JArray xs)"
  by (auto simp: array_elems_def split: jsval.splits jsobj.splits)

lemma str_includes_sublist: "str_includes s pat = sublist pat s"
  by (induction s) (auto simp: sublist_Cons_right)

lemma example_array:
  "array_elems (heap example_state) (playlist example_state) = Some [JRef 1, JRef 2]"
  by (simp add: example_state_def example_heap_def array_elems_def)

section \<open>Selection out of range\<close>

text \<open>
  Claim C3. When the playlist is an array and the index is an integer outside
  \<open>[0, length)\<close>, \<^verbatim>\<open>playListItem\<close> returns without raising and leaves the whole state
  as it was: the playlist, \<^verbatim>\<open>isPlaying\<close>, the source of the player element and the
  active markings of the rendered items are fields of the state returned unchanged.
\<close>

theorem playListItem_out_of_range:
  assumes "array_elems (heap s) (playlist s) = Some xs"
    and "index < 0 \<or> int (length xs) \<le> index"
  shows "playListItem index s = Return s"
proof -
  from assms(1) obtain a where a: "playlist s = JRef a" "cells (heap s) a = JArray xs"
    by (auto simp: array_elems_Some)
  from assms(2) a have "get_index (heap s) (playlist s) index = JUndefined"
    by (auto simp: get_index_def)
  with a show ?thesis by (simp add: playListItem_def)
qed

theorem playListItem_out_of_range_witness:
  "array_elems (heap example_state) (playlist example_state) = Some [JRef 1, JRef 2]
   \<and> playListItem 2 example_state = Return example_state
   \<and> playListItem (- 1) example_state = Return example_state"
  using playListItem_out_of_range [OF example_array, of 2]
    playListItem_out_of_range [OF example_array, of "- 1"] example_array
  by simp

section \<open>Playing a track in range\<close>

lemma playListItem_in_range:
  assumes "array_elems (heap s) (playlist s) = Some xs"
    and "0 \<le> index" and "index < int (length xs)"
    and "truthy (xs ! nat index)"
  shows "playListItem index s =
    (case attach_source (resolve_url (heap s) (xs ! nat index))
            (s\<lparr>mount := map_option (mark_active index) (mount s)\<rparr>) of
       Throw e s' \<Rightarrow> Throw e s'
     | Return s' \<Rightarrow> Return (start_playback (xs ! nat index) s'))"
proof -
  from assms(1) obtain a where a: "playlist s = JRef a" "cells (heap s) a = JArray xs"
    by (auto simp: array_elems_Some)
  from assms(2,3) a have "get_index (heap s) (playlist s) index = xs ! nat index"
    by (simp add: get_index_def)
  with a assms(4) show ?thesis by (simp add: playListItem_def Let_def)
qed

lemma example_truthy: "truthy ([JRef 1, JRef 2] ! nat 1)" "truthy ([JRef 1, JRef 2] ! nat 0)"
  by simp_all

lemma example_item1:
  "resolve_url (heap example_state) ([JRef 1, JRef 2] ! nat 0) = JStr ''a.mp4''"
  by (simp add: example_state_def example_heap_def resolve_url_def get_prop_def js_or_def)

lemma example_item2:
  "resolve_url (heap example_state) ([JRef 1, JRef 2] ! nat 1) = JStr ''b.m3u8''"
  by (simp add: example_state_def example_heap_def resolve_url_def get_prop_def js_or_def)

lemma example_flags:
  "window_Hls example_state" "Hls_isSupported example_state"
  "hls_instances example_state = []"
  "playerElement example_state = Some \<lparr>src = JStr ''''\<rparr>"
  "plyr_play_calls example_state = 0"
  by (simp_all add: example_state_def)

text \<open>
  Claim C1, as the script has it. The test of the script is
  \<^verbatim>\<open>url.includes('.m3u8')\<close>: the manifest extension may stand anywhere in the URL.
  For an index in range whose track is truthy and whose resolved URL is the string
  \<open>u\<close>: when the adaptive-streaming library is present and supported and \<open>u\<close> contains
  \<^verbatim>\<open>.m3u8\<close> (in particular when \<open>u\<close> ends in it), \<^verbatim>\<open>playListItem\<close> hands \<open>u\<close> to a new
  Hls instance and leaves the source of the player element alone; in every other case
  it assigns \<open>u\<close> to the source of the player element and makes no Hls instance.
\<close>

theorem playListItem_source_decision:
  assumes "array_elems (heap s) (playlist s) = Some xs"
    and "0 \<le> index" and "index < int (length xs)"
    and "truthy (xs ! nat index)"
    and "resolve_url (heap s) (xs ! nat index) = JStr u"
  shows "(window_Hls s \<and> Hls_isSupported s \<and> sublist ''.m3u8'' u \<longrightarrow>
            (\<exists>s'. playListItem index s = Return s'
               \<and> hls_instances s' = hls_instances s @
                    [\<lparr>source = JStr u, media_attached = True, manifest_listener = True,
                      currentLevel = - 1\<rparr>]
               \<and> playerElement s' = playerElement s))
       \<and> (window_Hls s \<and> Hls_isSupported s \<and> suffix ''.m3u8'' u \<longrightarrow>
            (\<exists>s'. playListItem index s = Return s'
               \<and> map source (hls_instances s') = map source (hls_instances s) @ [JStr u]
               \<and> playerElement s' = playerElement s))
       \<and> (\<not> (window_Hls s \<and> Hls_isSupported s \<and> sublist ''.m3u8'' u) \<longrightarrow>
            (\<forall>el. playerElement s = Some el \<longrightarrow>
               (\<exists>s'. playListItem index s = Return s'
                  \<and> playerElement s' = Some (el\<lparr>src := JStr u\<rparr>)
                  \<and> hls_instances s' = hls_instances s)))"
proof -
  note step = playListItem_in_range [OF assms(1-4), unfolded assms(5)]
  have hls: "window_Hls s \<and> Hls_isSupported s \<and> sublist ''.m3u8'' u \<Longrightarrow>
     \<exists>s'. playListItem index s = Return s'
        \<and> hls_instances s' = hls_instances s @
             [\<lparr>source = JStr u, media_attached = True, manifest_listener = True,
               currentLevel = - 1\<rparr>]
        \<and> playerElement s' = playerElement s"
    by (simp add: step attach_source_def js_includes_def str_includes_sublist attach_hls_def
        start_playback_def)
  have direct: "\<not> (window_Hls s \<and> Hls_isSupported s \<and> sublist ''.m3u8'' u) \<Longrightarrow>
     playerElement s = Some el \<Longrightarrow>
     \<exists>s'. playListItem index s = Return s'
        \<and> playerElement s' = Some (el\<lparr>src := JStr u\<rparr>)
        \<and> hls_instances s' = hls_instances s" for el
    by (auto simp: step attach_source_def js_includes_def str_includes_sublist assign_src_def
        start_playback_def)
  from hls have "window_Hls s \<and> Hls_isSupported s \<and> suffix ''.m3u8'' u \<Longrightarrow>
     \<exists>s'. playListItem index s = Return s'
        \<and> map source (hls_instances s') = map source (hls_instances s) @ [JStr u]
        \<and> playerElement s' = playerElement s"
    by (auto dest: suffix_imp_sublist)
  with hls direct show ?thesis by blast
qed

theorem playListItem_source_decision_witness:
  "array_elems (heap example_state) (playlist example_state) = Some [JRef 1, JRef 2]
   \<and> window_Hls example_state \<and> Hls_isSupported example_state
   \<and> resolve_url (heap example_state) (JRef 2) = JStr ''b.m3u8''
   \<and> sublist ''.m3u8'' ''b.m3u8''
   \<and> (\<exists>s'. playListItem 1 example_state = Return s'
         \<and> hls_instances s' =
              [\<lparr>source = JStr ''b.m3u8'', media_attached = True, manifest_listener = True,
                currentLevel = - 1\<rparr>]
         \<and> playerElement s' = Some \<lparr>src = JStr ''''\<rparr>)
   \<and> resolve_url (heap example_state) (JRef 1) = JStr ''a.mp4''
   \<and> \<not> sublist ''.m3u8'' ''a.mp4''
   \<and> (\<exists>s'. playListItem 0 example_state = Return s'
         \<and> playerElement s' = Some \<lparr>src = JStr ''a.mp4''\<rparr>
         \<and> hls_instances s' = [])"
proof -
  have a: "sublist ''.m3u8'' ''b.m3u8''" and b: "\<not> sublist ''.m3u8'' ''a.mp4''"
    by (simp_all add: str_includes_sublist [symmetric])
  have r: "0 \<le> (1::int)" "(1::int) < int (length [JRef 1, JRef 2])"
    "0 \<le> (0::int)" "(0::int) < int (length [JRef 1, JRef 2])" by simp_all
  note t1 = playListItem_source_decision [OF example_array r(1,2) example_truthy(1) example_item2]
  note t0 = playListItem_source_decision [OF example_array r(3,4) example_truthy(2) example_item1]
  from t1 a have c1: "\<exists>s'. playListItem 1 example_state = Return s'
         \<and> hls_instances s' =
              [\<lparr>source = JStr ''b.m3u8'', media_attached = True, manifest_listener = True,
                currentLevel = - 1\<rparr>]
         \<and> playerElement s' = Some \<lparr>src = JStr ''''\<rparr>"
    by (simp add: example_flags)
  from t0 b have c0: "\<exists>s'. playListItem 0 example_state = Return s'
         \<and> playerElement s' = Some \<lparr>src = JStr ''a.mp4''\<rparr>
         \<and> hls_instances s' = []"
    by (simp add: example_flags)
  from example_item1 example_item2
  have "resolve_url (heap example_state) (JRef 2) = JStr ''b.m3u8''"
    "resolve_url (heap example_state) (JRef 1) = JStr ''a.mp4''" by simp_all
  with a b c0 c1 example_array example_flags show ?thesis by simp
qed

text \<open>
  Claim C1 as the specification words it fails: with the library present and supported,
  the URL \<^verbatim>\<open>b.m3u8?token=1\<close> does not end in \<^verbatim>\<open>.m3u8\<close>, and still \<^verbatim>\<open>playListItem\<close>
  hands it to an Hls instance and does not assign it to the player element, whose
  source stays the empty string.
\<close>

theorem manifest_query_counterexample:
  "window_Hls manifest_query_state \<and> Hls_isSupported manifest_query_state
   \<and> array_elems (heap manifest_query_state) (playlist manifest_query_state)
       = Some [JRef 1, JRef 2]
   \<and> resolve_url (heap manifest_query_state) (JRef 2) = JStr ''b.m3u8?token=1''
   \<and> \<not> suffix ''.m3u8'' ''b.m3u8?token=1''
   \<and> returns (playListItem 1 manifest_query_state)
   \<and> playerElement (state_of (playListItem 1 manifest_query_state)) = Some \<lparr>src = JStr ''''\<rparr>
   \<and> map source (hls_instances (state_of (playListItem 1 manifest_query_state)))
       = [JStr ''b.m3u8?token=1'']"
  by (simp add: manifest_query_state_def example_state_def example_heap_def array_elems_def
      resolve_url_def get_prop_def js_or_def suffix_to_prefix playListItem_def get_index_def
      attach_source_def js_includes_def attach_hls_def start_playback_def Let_def)

lemma legacy_array:
  "array_elems (heap legacy_state) (playlist legacy_state) = Some [JRef 1, JRef 2, JRef 3]"
  by (simp add: legacy_state_def example_state_def array_elems_def)

lemma legacy_cells:
  "cells (heap legacy_state) 1 =
     JObject [(''title'', JStr ''Both''), (''stream_url'', JStr ''new.mp4''),
              (''stream'', JStr ''old.mp4'')]"
  "cells (heap legacy_state) 2 =
     JObject [(''title'', JStr ''Legacy''), (''stream_url'', JStr ''''),
              (''stream'', JStr ''old.mp4'')]"
  "cells (heap legacy_state) 3 = JObject [(''title'', JStr ''Neither'')]"
  by (simp_all add: legacy_state_def example_state_def)

text \<open>
  Claim C7. For a track that is an object, the URL \<^verbatim>\<open>playListItem\<close> hands to the
  source-type decision is resolved from the two legacy fields in order: a non-empty
  \<^verbatim>\<open>stream_url\<close> wins whatever \<^verbatim>\<open>stream\<close> holds; with \<^verbatim>\<open>stream_url\<close> absent or
  empty, a non-empty \<^verbatim>\<open>stream\<close> wins; with both absent or empty the URL is the empty
  string.
\<close>

theorem playListItem_resolves_url:
  assumes "array_elems (heap s) (playlist s) = Some xs"
    and "0 \<le> index" and "index < int (length xs)"
    and "xs ! nat index = JRef a"
    and "cells (heap s) a = JObject fs"
  shows "playListItem index s =
           (case attach_source (resolve_url (heap s) (JRef a))
                   (s\<lparr>mount := map_option (mark_active index) (mount s)\<rparr>) of
              Throw e s' \<Rightarrow> Throw e s'
            | Return s' \<Rightarrow> Return (start_playback (JRef a) s'))
       \<and> (\<forall>u. map_of fs ''stream_url'' = Some (JStr u) \<and> u \<noteq> [] \<longrightarrow>
            resolve_url (heap s) (JRef a) = JStr u)
       \<and> (\<forall>v. (map_of fs ''stream_url'' = None \<or> map_of fs ''stream_url'' = Some (JStr ''''))
              \<and> map_of fs ''stream'' = Some (JStr v) \<and> v \<noteq> [] \<longrightarrow>
            resolve_url (heap s) (JRef a) = JStr v)
       \<and> ((map_of fs ''stream_url'' = None \<or> map_of fs ''stream_url'' = Some (JStr ''''))
            \<and> (map_of fs ''stream'' = None \<or> map_of fs ''stream'' = Some (JStr '''')) \<longrightarrow>
            resolve_url (heap s) (JRef a) = JStr '''')"
proof -
  have "truthy (xs ! nat index)" by (simp add: assms(4))
  from playListItem_in_range [OF assms(1-3) this, unfolded assms(4)]
  have "playListItem index s =
           (case attach_source (resolve_url (heap s) (JRef a))
                   (s\<lparr>mount := map_option (mark_active index) (mount s)\<rparr>) of
              Throw e s' \<Rightarrow> Throw e s'
            | Return s' \<Rightarrow> Return (start_playback (JRef a) s'))" .
  moreover from assms(5)
  have "(\<forall>u. map_of fs ''stream_url'' = Some (JStr u) \<and> u \<noteq> [] \<longrightarrow>
            resolve_url (heap s) (JRef a) = JStr u)
       \<and> (\<forall>v. (map_of fs ''stream_url'' = None \<or> map_of fs ''stream_url'' = Some (JStr ''''))
              \<and> map_of fs ''stream'' = Some (JStr v) \<and> v \<noteq> [] \<longrightarrow>
            resolve_url (heap s) (JRef a) = JStr v)
       \<and> ((map_of fs ''stream_url'' = None \<or> map_of fs ''stream_url'' = Some (JStr ''''))
            \<and> (map_of fs ''stream'' = None \<or> map_of fs ''stream'' = Some (JStr '''')) \<longrightarrow>
            resolve_url (heap s) (JRef a) = JStr '''')"
    by (auto simp: resolve_url_def get_prop_def js_or_def)
  ultimately show ?thesis by blast
qed

theorem playListItem_resolves_url_witness:
  "array_elems (heap legacy_state) (playlist legacy_state) = Some [JRef 1, JRef 2, JRef 3]
   \<and> resolve_url (heap legacy_state) (JRef 1) = JStr ''new.mp4''
   \<and> resolve_url (heap legacy_state) (JRef 2) = JStr ''old.mp4''
   \<and> resolve_url (heap legacy_state) (JRef 3) = JStr ''''
   \<and> playListItem 0 legacy_state =
       (case attach_source (JStr ''new.mp4'')
               (legacy_state\<lparr>mount := map_option (mark_active 0) (mount legacy_state)\<rparr>) of
          Throw e s' \<Rightarrow> Throw e s'
        | Return s' \<Rightarrow> Return (start_playback (JRef 1) s'))"
proof -
  have r: "0 \<le> (0::int)" "(0::int) < int (length [JRef 1, JRef 2, JRef 3])"
    "0 \<le> (1::int)" "(1::int) < int (length [JRef 1, JRef 2, JRef 3])"
    "0 \<le> (2::int)" "(2::int) < int (length [JRef 1, JRef 2, JRef 3])"
    "[JRef 1, JRef 2, JRef 3] ! nat 0 = JRef 1" "[JRef 1, JRef 2, JRef 3] ! nat 1 = JRef 2"
    "[JRef 1, JRef 2, JRef 3] ! nat 2 = JRef 3"
    by simp_all
  note t1 = playListItem_resolves_url [OF legacy_array r(1,2,7) legacy_cells(1)]
  note t2 = playListItem_resolves_url [OF legacy_array r(3,4,8) legacy_cells(2)]
  note t3 = playListItem_resolves_url [OF legacy_array r(5,6,9) legacy_cells(3)]
  from t1 have u1: "resolve_url (heap legacy_state) (JRef 1) = JStr ''new.mp4''" by simp
  from t2 have u2: "resolve_url (heap legacy_state) (JRef 2) = JStr ''old.mp4''" by simp
  from t3 have u3: "resolve_url (heap legacy_state) (JRef 3) = JStr ''''" by simp
  from t1 u1 have "playListItem 0 legacy_state =
       (case attach_source (JStr ''new.mp4'')
               (legacy_state\<lparr>mount := map_option (mark_active 0) (mount legacy_state)\<rparr>) of
          Throw e s' \<Rightarrow> Throw e s'
        | Return s' \<Rightarrow> Return (start_playback (JRef 1) s'))"
    by simp
  with u1 u2 u3 legacy_array show ?thesis by simp
qed

text \<open>
  Claim C10. A track in range that has neither source field, or has them empty, is
  played like any other: on a page that has the player element, \<^verbatim>\<open>playListItem\<close>
  returns, the source of the player element is the empty string, no Hls instance is
  made, \<^verbatim>\<open>play\<close> is called once more on the player, and \<^verbatim>\<open>isPlaying\<close> is true.
\<close>

theorem playListItem_no_source:
  assumes "array_elems (heap s) (playlist s) = Some xs"
    and "0 \<le> index" and "index < int (length xs)"
    and "truthy (xs ! nat index)"
    and "get_prop (heap s) (xs ! nat index) ''stream_url'' = JUndefined
         \<or> get_prop (heap s) (xs ! nat index) ''stream_url'' = JStr ''''"
    and "get_prop (heap s) (xs ! nat index) ''stream'' = JUndefined
         \<or> get_prop (heap s) (xs ! nat index) ''stream'' = JStr ''''"
    and "playerElement s = Some el"
  shows "\<exists>s'. playListItem index s = Return s'
           \<and> playerElement s' = Some (el\<lparr>src := JStr ''''\<rparr>)
           \<and> hls_instances s' = hls_instances s
           \<and> plyr_play_calls s' = Suc (plyr_play_calls s)
           \<and> isPlaying s'"
proof -
  from assms(5,6) have url: "resolve_url (heap s) (xs ! nat index) = JStr ''''"
    by (auto simp: resolve_url_def js_or_def)
  show ?thesis
    using assms(7)
    by (simp add: playListItem_in_range [OF assms(1-4)] url attach_source_def js_includes_def
        assign_src_def start_playback_def)
qed

lemma no_source_facts:
  "array_elems (heap no_source_state) (playlist no_source_state) = Some [JRef 1]"
  "get_prop (heap no_source_state) ([JRef 1] ! nat 0) ''stream_url'' = JUndefined"
  "get_prop (heap no_source_state) ([JRef 1] ! nat 0) ''stream'' = JUndefined"
  "playerElement no_source_state = Some \<lparr>src = JStr ''''\<rparr>"
  "plyr_play_calls no_source_state = 0"
  "hls_instances no_source_state = []"
  "window_Hls no_source_state"
  by (simp_all add: no_source_state_def example_state_def array_elems_def get_prop_def)

theorem playListItem_no_source_witness:
  "array_elems (heap no_source_state) (playlist no_source_state) = Some [JRef 1]
   \<and> get_prop (heap no_source_state) (JRef 1) ''stream_url'' = JUndefined
   \<and> get_prop (heap no_source_state) (JRef 1) ''stream'' = JUndefined
   \<and> window_Hls no_source_state
   \<and> (\<exists>s'. playListItem 0 no_source_state = Return s'
         \<and> playerElement s' = Some \<lparr>src = JStr ''''\<rparr>
         \<and> hls_instances s' = []
         \<and> plyr_play_calls s' = 1
         \<and> isPlaying s')"
proof -
  have r: "0 \<le> (0::int)" "(0::int) < int (length [JRef 1])" "truthy ([JRef 1] ! nat 0)"
    by simp_all
  from playListItem_no_source [OF no_source_facts(1) r disjI1 [OF no_source_facts(2)]
      disjI1 [OF no_source_facts(3)] no_source_facts(4)]
  have "\<exists>s'. playListItem 0 no_source_state = Return s'
         \<and> playerElement s' = Some \<lparr>src = JStr ''''\<rparr>
         \<and> hls_instances s' = []
         \<and> plyr_play_calls s' = 1
         \<and> isPlaying s'"
    by (simp add: no_source_facts)
  with no_source_facts show ?thesis by simp
qed

section \<open>Loading the stored playlist\<close>


text \<open>
  The rendering loop raises only on a nullish element.
\<close>

lemma build_items_ok:
  "\<forall>x \<in> set xs. \<not> nullish x \<Longrightarrow> \<exists>lis. build_items h xs i = Inr lis \<and> length lis = length xs"
proof (induction xs arbitrary: i)
  case Nil
  then show ?case by simp
next
  case (Cons x xs)
  then have "\<forall>y \<in> set xs. \<not> nullish y" and x: "\<not> nullish x" by simp_all
  from Cons.IH [OF this(1), of "Suc i"] obtain lis
    where "build_items h xs (Suc i) = Inr lis" "length lis = length xs" by blast
  with x show ?case by simp
qed

lemma buildPlaylistUI_frame:
  "heap (state_of (buildPlaylistUI c s)) = heap s"
  "playlist (state_of (buildPlaylistUI c s)) = playlist s"
  "isPlaying (state_of (buildPlaylistUI c s)) = isPlaying s"
  "localStorage (state_of (buildPlaylistUI c s)) = localStorage s"
  by (auto simp: buildPlaylistUI_def split: option.splits sum.splits)

lemma buildPlaylistUI_returns:
  assumes "\<forall>xs. array_elems (heap s) (playlist s) = Some xs \<longrightarrow> (\<forall>x \<in> set xs. \<not> nullish x)"
  shows "returns (buildPlaylistUI c s)"
proof (cases "array_elems (heap s) (playlist s)")
  case None
  then show ?thesis by (auto simp: buildPlaylistUI_def split: option.splits)
next
  case (Some xs)
  with assms have "\<forall>x \<in> set xs. \<not> nullish x" by simp
  from build_items_ok [OF this] obtain lis where "build_items (heap s) xs 0 = Inr lis" by blast
  with Some show ?thesis by (auto simp: buildPlaylistUI_def split: option.splits)
qed

lemma demo_fallback_empty:
  assumes "array_elems (heap s) (playlist s) = Some []"
  shows "array_elems (heap (demo_fallback s)) (playlist (demo_fallback s))
           = Some [JRef (fresh (heap s)), JRef (Suc (fresh (heap s)))]
       \<and> cells (heap (demo_fallback s)) (fresh (heap s)) = demo_track_1
       \<and> cells (heap (demo_fallback s)) (Suc (fresh (heap s))) = demo_track_2"
  using assms
  by (auto simp: demo_fallback_def needs_fallback_def alloc_def array_elems_Some get_prop_def)


lemma DOMContentLoaded_frame:
  assumes "returns (buildPlaylistUI ''playlist-root'' (demo_fallback (load_saved P s)))"
  shows "\<exists>s'. DOMContentLoaded P s = Return s'
           \<and> heap s' = heap (demo_fallback (load_saved P s))
           \<and> playlist s' = playlist (demo_fallback (load_saved P s))"
proof (cases "buildPlaylistUI ''playlist-root'' (demo_fallback (load_saved P s))")
  case (Return s1)
  with buildPlaylistUI_frame(1,2) [of "''playlist-root''" "demo_fallback (load_saved P s)"]
  show ?thesis by (simp add: DOMContentLoaded_def)
next
  case (Throw e s1)
  with assms show ?thesis by simp
qed

lemma demo_loaded:
  assumes "array_elems (heap s1) (playlist s1) = Some []" and "s1 = load_saved P s"
  shows "\<exists>s' a b. DOMContentLoaded P s = Return s'
           \<and> array_elems (heap s') (playlist s') = Some [JRef a, JRef b] \<and> a \<noteq> b
           \<and> cells (heap s') a = demo_track_1 \<and> cells (heap s') b = demo_track_2"
proof -
  let ?d = "demo_fallback (load_saved P s)"
  note d = demo_fallback_empty [OF assms(1), unfolded assms(2)]
  then have "returns (buildPlaylistUI ''playlist-root'' ?d)"
    by (intro buildPlaylistUI_returns) auto
  from DOMContentLoaded_frame [OF this] obtain s' where s':
    "DOMContentLoaded P s = Return s'" "heap s' = heap ?d" "playlist s' = playlist ?d"
    by blast
  with d show ?thesis by auto
qed

text \<open>
  Claim C2. Let the stored playlist string be one on which \<^verbatim>\<open>JSON.parse\<close> raises. The
  empty string is such a string, but the handler does not parse it: it is considered
  where the playlist is still the empty array the script starts with. Then the
  \<^verbatim>\<open>DOMContentLoaded\<close> handler returns without raising; for a non-empty string its first
  block leaves the playlist an empty array; and at the end the playlist is the array of
  the two built-in demo tracks, held by two distinct objects.
\<close>

theorem load_malformed:
  assumes "localStorage s ''player-playlist'' = Some json"
    and "JSON_parse P json (heap s) = None"
    and "json \<noteq> [] \<or> array_elems (heap s) (playlist s) = Some []"
  shows "(json \<noteq> [] \<longrightarrow>
            array_elems (heap (load_saved P s)) (playlist (load_saved P s)) = Some [])
       \<and> (\<exists>s' a b. DOMContentLoaded P s = Return s'
             \<and> array_elems (heap s') (playlist s') = Some [JRef a, JRef b] \<and> a \<noteq> b
             \<and> cells (heap s') a = demo_track_1 \<and> cells (heap s') b = demo_track_2)"
proof -
  have degrade: "array_elems (heap (load_saved P s)) (playlist (load_saved P s)) = Some []"
    using assms by (auto simp: load_saved_def alloc_def array_elems_def)
  from demo_loaded [OF this refl] degrade show ?thesis by blast
qed

text \<open>
  Claim C9. Let the stored string be non-empty and parse to a value \<open>v\<close> that is not an
  array. When \<open>v\<close> is truthy and its \<^verbatim>\<open>length\<close> is not \<open>0\<close> (a non-zero number,
  \<^verbatim>\<open>true\<close>, a non-empty string, an object with no \<^verbatim>\<open>length\<close> of \<open>0\<close>), the handler returns
  with \<open>v\<close> itself as the playlist and allocates no demo track; the demo array replaces
  \<open>v\<close> only when \<open>v\<close> is falsy or its \<^verbatim>\<open>length\<close> is \<open>0\<close>.
\<close>

theorem load_non_array:
  assumes "localStorage s ''player-playlist'' = Some json"
    and "json \<noteq> []"
    and "JSON_parse P json (heap s) = Some (v, h')"
    and "array_elems h' v = None"
  shows "(truthy v \<and> get_prop h' v ''length'' \<noteq> JNum 0 \<longrightarrow>
            (\<exists>s'. DOMContentLoaded P s = Return s' \<and> playlist s' = v \<and> heap s' = h'))
       \<and> (\<not> truthy v \<or> get_prop h' v ''length'' = JNum 0 \<longrightarrow>
            (\<exists>s' a b. DOMContentLoaded P s = Return s'
               \<and> array_elems (heap s') (playlist s') = Some [JRef a, JRef b] \<and> a \<noteq> b
               \<and> cells (heap s') a = demo_track_1 \<and> cells (heap s') b = demo_track_2))"
proof -
  let ?l = "load_saved P s"
  have l: "playlist ?l = v" "heap ?l = h'"
    using assms(1-3) by (simp_all add: load_saved_def)
  have keep: "\<exists>s'. DOMContentLoaded P s = Return s' \<and> playlist s' = v \<and> heap s' = h'"
    if "truthy v" "get_prop h' v ''length'' \<noteq> JNum 0"
  proof -
    from that l have d: "demo_fallback ?l = ?l"
      by (simp add: demo_fallback_def needs_fallback_def)
    from assms(4) l have "returns (buildPlaylistUI ''playlist-root'' (demo_fallback ?l))"
      unfolding d by (intro buildPlaylistUI_returns) simp
    from DOMContentLoaded_frame [OF this] l show ?thesis by (auto simp: d)
  qed
  have demo: "\<exists>s' a b. DOMContentLoaded P s = Return s'
               \<and> array_elems (heap s') (playlist s') = Some [JRef a, JRef b] \<and> a \<noteq> b
               \<and> cells (heap s') a = demo_track_1 \<and> cells (heap s') b = demo_track_2"
    if "\<not> truthy v \<or> get_prop h' v ''length'' = JNum 0"
  proof -
    let ?d = "demo_fallback ?l"
    from that l have d: "array_elems (heap ?d) (playlist ?d)
           = Some [JRef (fresh h'), JRef (Suc (fresh h'))]
       \<and> cells (heap ?d) (fresh h') = demo_track_1
       \<and> cells (heap ?d) (Suc (fresh h')) = demo_track_2"
      by (auto simp: demo_fallback_def needs_fallback_def alloc_def array_elems_def)
    then have "returns (buildPlaylistUI ''playlist-root'' ?d)"
      by (intro buildPlaylistUI_returns) auto
    from DOMContentLoaded_frame [OF this] obtain s' where
      "DOMContentLoaded P s = Return s'" "heap s' = heap ?d" "playlist s' = playlist ?d"
      by blast
    with d show ?thesis by auto
  qed
  from keep demo show ?thesis by blast
qed


lemma stored_state_facts:
  "localStorage (stored_state json) ''player-playlist'' = Some json"
  "heap (stored_state json) = \<lparr>cells = (cells example_heap)(3 := JArray []), fresh = 4\<rparr>"
  "playlist (stored_state json) = JRef 3"
  "isPlaying (stored_state json) = False"
  by (simp_all add: stored_state_def boot_def alloc_def initializeTheme_def set_theme_def
      example_state_def example_heap_def localThemeKey_def)

lemma example_parse_facts:
  "JSON_parse example_platform ''{bad'' h = None"
  "JSON_parse example_platform ''5'' h = Some (JNum 5, h)"
  "JSON_parse example_platform ''null'' h = Some (JNull, h)"
  "JSON_parse example_platform ''{}'' h =
     Some (JRef (fresh h), h\<lparr>cells := (cells h)(fresh h := JObject []), fresh := Suc (fresh h)\<rparr>)"
  by (simp_all add: example_platform_def example_parse_def alloc_def)

theorem load_malformed_witness:
  "localStorage (stored_state ''{bad'') ''player-playlist'' = Some ''{bad''
   \<and> JSON_parse example_platform ''{bad'' (heap (stored_state ''{bad'')) = None
   \<and> array_elems (heap (load_saved example_platform (stored_state ''{bad'')))
        (playlist (load_saved example_platform (stored_state ''{bad''))) = Some []
   \<and> (\<exists>s' a b. DOMContentLoaded example_platform (stored_state ''{bad'') = Return s'
         \<and> array_elems (heap s') (playlist s') = Some [JRef a, JRef b] \<and> a \<noteq> b
         \<and> cells (heap s') a = demo_track_1 \<and> cells (heap s') b = demo_track_2)"
proof -
  have ne: "''{bad'' \<noteq> [] \<or>
    array_elems (heap (stored_state ''{bad'')) (playlist (stored_state ''{bad'')) = Some []"
    by simp
  from load_malformed [OF stored_state_facts(1) example_parse_facts(1) ne]
    stored_state_facts(1) example_parse_facts(1)
  show ?thesis by simp
qed

theorem load_non_array_witness:
  "localStorage (stored_state ''5'') ''player-playlist'' = Some ''5''
   \<and> JSON_parse example_platform ''5'' (heap (stored_state ''5''))
       = Some (JNum 5, heap (stored_state ''5''))
   \<and> array_elems (heap (stored_state ''5'')) (JNum 5) = None
   \<and> truthy (JNum 5) \<and> get_prop (heap (stored_state ''5'')) (JNum 5) ''length'' \<noteq> JNum 0
   \<and> (\<exists>s'. DOMContentLoaded example_platform (stored_state ''5'') = Return s'
         \<and> playlist s' = JNum 5 \<and> heap s' = heap (stored_state ''5''))
   \<and> (\<exists>s'. DOMContentLoaded example_platform (stored_state ''{}'') = Return s'
         \<and> playlist s' = JRef 4 \<and> cells (heap s') 4 = JObject [])
   \<and> JSON_parse example_platform ''null'' (heap (stored_state ''null''))
       = Some (JNull, heap (stored_state ''null''))
   \<and> (\<exists>s' a b. DOMContentLoaded example_platform (stored_state ''null'') = Return s'
         \<and> array_elems (heap s') (playlist s') = Some [JRef a, JRef b] \<and> a \<noteq> b
         \<and> cells (heap s') a = demo_track_1 \<and> cells (heap s') b = demo_track_2)"
proof -
  have a5: "array_elems (heap (stored_state ''5'')) (JNum 5) = None"
    and an: "array_elems (heap (stored_state ''null'')) JNull = None"
    and l5: "get_prop (heap (stored_state ''5'')) (JNum 5) ''length'' \<noteq> JNum 0"
    by (simp_all add: array_elems_def get_prop_def)
  have ne: "''5'' \<noteq> []" "''null'' \<noteq> []" by simp_all
  note t5 = load_non_array [OF stored_state_facts(1) ne(1) example_parse_facts(2) a5]
  note tn = load_non_array [OF stored_state_facts(1) ne(2) example_parse_facts(3) an]
  from t5 l5 have c5: "\<exists>s'. DOMContentLoaded example_platform (stored_state ''5'') = Return s'
         \<and> playlist s' = JNum 5 \<and> heap s' = heap (stored_state ''5'')"
    by simp
  from tn have cn: "\<exists>s' a b. DOMContentLoaded example_platform (stored_state ''null'') = Return s'
         \<and> array_elems (heap s') (playlist s') = Some [JRef a, JRef b] \<and> a \<noteq> b
         \<and> cells (heap s') a = demo_track_1 \<and> cells (heap s') b = demo_track_2"
    by simp
  have ao: "array_elems
      ((heap (stored_state ''{}''))\<lparr>cells := (cells (heap (stored_state ''{}'')))
          (fresh (heap (stored_state ''{}'')) := JObject []),
        fresh := Suc (fresh (heap (stored_state ''{}'')))\<rparr>)
      (JRef (fresh (heap (stored_state ''{}'')))) = None"
    by (simp add: array_elems_def)
  have neo: "''{}'' \<noteq> []" by simp
  note t_obj = load_non_array [OF stored_state_facts(1) neo example_parse_facts(4) ao]
  from t_obj have co: "\<exists>s'. DOMContentLoaded example_platform (stored_state ''{}'') = Return s'
         \<and> playlist s' = JRef 4 \<and> cells (heap s') 4 = JObject []"
    by (auto simp: get_prop_def stored_state_facts(2))
  from c5 cn co a5 l5 stored_state_facts(1) example_parse_facts(2,3) show ?thesis by simp
qed

section \<open>Searching the playlist\<close>


text \<open>
  The callback of the filter accepts exactly the values with a non-empty string title
  whose lower-cased form contains the normalised query.
\<close>

lemma title_matches_True:
  "title_matches P h n it = Inr True \<longleftrightarrow>
     (\<exists>t. get_prop h it ''title'' = JStr t \<and> t \<noteq> [] \<and> sublist n (toLowerCase P t))"
proof (cases "truthy it")
  case True
  then show ?thesis
    by (cases "get_prop h it ''title''") (auto simp: title_matches_def str_includes_sublist)
next
  case False
  then have "get_prop h it ''title'' = JUndefined"
    by (cases it) (auto simp: get_prop_def)
  with False show ?thesis by (simp add: title_matches_def)
qed

lemma title_matches_typed:
  assumes "truthy it \<and> truthy (get_prop h it ''title'') \<longrightarrow> (\<exists>t. get_prop h it ''title'' = JStr t)"
  shows "\<exists>b. title_matches P h n it = Inr b"
  using assms by (auto simp: title_matches_def)

lemma filter_tracks_typed:
  assumes "\<forall>it \<in> set xs. truthy it \<and> truthy (get_prop h it ''title'') \<longrightarrow>
             (\<exists>t. get_prop h it ''title'' = JStr t)"
  shows "filter_tracks P h n xs = Inr (filter (\<lambda>it. title_matches P h n it = Inr True) xs)"
  using assms
proof (induction xs)
  case Nil
  then show ?case by simp
next
  case (Cons x xs)
  then have "truthy x \<and> truthy (get_prop h x ''title'') \<longrightarrow> (\<exists>t. get_prop h x ''title'' = JStr t)"
    by simp
  from title_matches_typed [OF this] obtain b where "title_matches P h n x = Inr b" by blast
  with Cons show ?case by simp
qed

lemma filter_tracks_Inr:
  "filter_tracks P h n xs = Inr ys \<Longrightarrow> ys = filter (\<lambda>it. title_matches P h n it = Inr True) xs"
proof (induction xs arbitrary: ys)
  case Nil
  then show ?case by simp
next
  case (Cons x xs)
  then show ?case by (auto split: sum.splits if_splits)
qed

lemma searchPlaylist_result:
  assumes "array_elems (heap s) (playlist s) = Some xs"
    and "toLowerCase P (trim P query) \<noteq> []"
    and "filter_tracks P (heap s) (toLowerCase P (trim P query)) xs = Inr filtered"
  shows "searchPlaylist P query s =
     Return (case getElementById s ''playlist-root'' of
               None \<Rightarrow> s
             | Some root \<Rightarrow>
                 s\<lparr>mount := Some (root\<lparr>content :=
                      (if filtered = [] then Message DEFAULT_EMPTY_MESSAGE
                       else PlayerList (map (filtered_item (heap s)) filtered))\<rparr>)\<rparr>)"
  using assms by (simp add: searchPlaylist_def Let_def split: option.splits)

text \<open>
  Claim C5. Let the playlist be an array whose tracks have string titles where they
  have a truthy title at all, and let the query be non-empty once trimmed and
  lower-cased (the test the script makes). Then the filter does not raise, and its
  result is the playlist restricted, in order, to exactly the tracks whose title is a
  non-empty string that, lower-cased, contains the normalised query: a subsequence of
  the playlist, from which every track without a title is left out. The search returns,
  leaves the playlist as it was, and on a page with the mount point shows one list item
  per track of the result, in the same order.
\<close>

theorem searchPlaylist_filter:
  assumes "array_elems (heap s) (playlist s) = Some xs"
    and "normalized = toLowerCase P (trim P query)"
    and "normalized \<noteq> []"
    and "\<forall>it \<in> set xs. truthy it \<and> truthy (get_prop (heap s) it ''title'') \<longrightarrow>
           (\<exists>t. get_prop (heap s) it ''title'' = JStr t)"
  shows "\<exists>filtered.
           filter_tracks P (heap s) normalized xs = Inr filtered
         \<and> filtered =
             filter (\<lambda>it. \<exists>t. get_prop (heap s) it ''title'' = JStr t \<and> t \<noteq> []
                            \<and> sublist normalized (toLowerCase P t)) xs
         \<and> subseq filtered xs
         \<and> (\<forall>it \<in> set xs. \<not> truthy (get_prop (heap s) it ''title'') \<longrightarrow> it \<notin> set filtered)
         \<and> returns (searchPlaylist P query s)
         \<and> array_elems (heap (state_of (searchPlaylist P query s)))
              (playlist (state_of (searchPlaylist P query s))) = Some xs
         \<and> (\<forall>root. getElementById s ''playlist-root'' = Some root \<longrightarrow>
               list_items (state_of (searchPlaylist P query s))
                 = map (filtered_item (heap s)) filtered)"
proof -
  let ?f = "filter (\<lambda>it. title_matches P (heap s) normalized it = Inr True) xs"
  have f: "filter_tracks P (heap s) normalized xs = Inr ?f"
    by (rule filter_tracks_typed [OF assms(4)])
  have eq: "?f = filter (\<lambda>it. \<exists>t. get_prop (heap s) it ''title'' = JStr t \<and> t \<noteq> []
                            \<and> sublist normalized (toLowerCase P t)) xs"
    by (simp add: title_matches_True)
  have excl: "\<forall>it \<in> set xs. \<not> truthy (get_prop (heap s) it ''title'') \<longrightarrow> it \<notin> set ?f"
    by (auto simp: title_matches_True)
  note res = searchPlaylist_result [OF assms(1) assms(3) [unfolded assms(2)] f [unfolded assms(2)]]
  have ret: "returns (searchPlaylist P query s)" by (simp add: res)
  have arr: "array_elems (heap (state_of (searchPlaylist P query s)))
              (playlist (state_of (searchPlaylist P query s))) = Some xs"
    using assms(1) by (simp add: res split: option.splits)
  have view: "list_items (state_of (searchPlaylist P query s)) = map (filtered_item (heap s)) ?f"
    if "getElementById s ''playlist-root'' = Some root" for root
    using that by (simp add: res list_items_def assms(2))
  from f eq excl ret arr view show ?thesis
    by (intro exI [of _ ?f]) (simp only: subseq_filter_left simp_thms, blast)
qed


lemma example_search:
  "toLowerCase example_platform (trim example_platform '' BETA '') = ''beta''"
  "get_prop (heap example_state) (JRef 1) ''title'' = JStr ''Alpha''"
  "get_prop (heap example_state) (JRef 2) ''title'' = JStr ''Beta Show''"
  "toLowerCase example_platform ''Alpha'' = ''alpha''"
  "toLowerCase example_platform ''Beta Show'' = ''beta show''"
  "getElementById example_state ''playlist-root''
     = Some \<lparr>el_id = ''playlist-root'', el_classes = [], content = Blank\<rparr>"
  by (simp_all add: example_platform_def ascii_trim_def ascii_space_def ascii_lower_def
      example_state_def example_heap_def get_prop_def getElementById_def)

theorem searchPlaylist_filter_witness:
  "array_elems (heap example_state) (playlist example_state) = Some [JRef 1, JRef 2]
   \<and> toLowerCase example_platform (trim example_platform '' BETA '') = ''beta''
   \<and> filter_tracks example_platform (heap example_state) ''beta'' [JRef 1, JRef 2] = Inr [JRef 2]
   \<and> returns (searchPlaylist example_platform '' BETA '' example_state)
   \<and> list_items (state_of (searchPlaylist example_platform '' BETA '' example_state))
       = [filtered_item (heap example_state) (JRef 2)]"
proof -
  have typed: "\<forall>it \<in> set [JRef 1, JRef 2].
      truthy it \<and> truthy (get_prop (heap example_state) it ''title'') \<longrightarrow>
      (\<exists>t. get_prop (heap example_state) it ''title'' = JStr t)"
    by (simp add: example_search del: One_nat_def)
  have ne: "''beta'' \<noteq> []" by simp
  have sel: "filter (\<lambda>it. \<exists>t. get_prop (heap example_state) it ''title'' = JStr t \<and> t \<noteq> []
                \<and> sublist ''beta'' (toLowerCase example_platform t)) [JRef 1, JRef 2] = [JRef 2]"
    by (simp add: example_search str_includes_sublist [symmetric] del: One_nat_def)
  from searchPlaylist_filter [OF example_array example_search(1) [symmetric] ne typed]
  show ?thesis
    unfolding sel by (auto simp: example_array example_search)
qed

lemma indexOf_first:
  "v \<in> set xs \<Longrightarrow>
     \<exists>i. indexOf xs v = Some i \<and> i < length xs \<and> xs ! i = v \<and> (\<forall>j<i. xs ! j \<noteq> v)"
proof (induction xs)
  case Nil
  then show ?case by simp
next
  case (Cons x xs)
  show ?case
  proof (cases "x = v")
    case True
    then show ?thesis by simp
  next
    case False
    with Cons.prems have "v \<in> set xs" by simp
    from Cons.IH [OF this] obtain i where i: "indexOf xs v = Some i" "i < length xs"
      "xs ! i = v" "\<forall>j<i. xs ! j \<noteq> v" by blast
    have "\<forall>j<Suc i. (x # xs) ! j \<noteq> v"
    proof (intro allI impI)
      fix j assume "j < Suc i"
      with False i(4) show "(x # xs) ! j \<noteq> v" by (cases j) auto
    qed
    with False i show ?thesis by simp
  qed
qed

lemma filter_positions:
  "filter Q xs = map (nth xs) (filter (\<lambda>j. Q (xs ! j)) [0..<length xs])"
proof -
  have "filter Q xs = filter Q (map (nth xs) [0..<length xs])" by (simp add: map_nth)
  also have "\<dots> = map (nth xs) (filter (Q \<circ> nth xs) [0..<length xs])" by (rule filter_map)
  finally show ?thesis by (simp add: comp_def)
qed

text \<open>
  Claim C4. After a search with a non-empty normalised query on a page with the mount
  point, the \<open>k\<close>-th list item holds the \<open>k\<close>-th track of the filter result, and a click
  on it calls \<^verbatim>\<open>playListItem\<close> with the index \<open>i\<close> that \<^verbatim>\<open>indexOf\<close> finds for that track
  in the unfiltered playlist: the first position holding that very track. The track
  was taken from position \<open>ps ! k\<close> of the playlist, so \<open>i\<close> is at most that position,
  and it is that position whenever no value occurs twice in the playlist. The position
  \<open>k\<close> in the filtered list plays no part.
\<close>

theorem filtered_click_plays_original_index:
  assumes "array_elems (heap s) (playlist s) = Some xs"
    and "normalized = toLowerCase P (trim P query)"
    and "normalized \<noteq> []"
    and "filter_tracks P (heap s) normalized xs = Inr filtered"
    and "getElementById s ''playlist-root'' = Some root"
    and "k < length filtered"
    and "s' = state_of (searchPlaylist P query s)"
    and "ps = filter (\<lambda>j. title_matches P (heap s) normalized (xs ! j) = Inr True) [0..<length xs]"
  shows "\<exists>i. i < length xs \<and> xs ! i = filtered ! k \<and> (\<forall>j<i. xs ! j \<noteq> filtered ! k)
           \<and> onclick (list_items s' ! k) = PlayTrack (filtered ! k)
           \<and> click P k s' = playListItem (int i) s'
           \<and> ps ! k < length xs \<and> xs ! (ps ! k) = filtered ! k \<and> i \<le> ps ! k
           \<and> (distinct xs \<longrightarrow> i = ps ! k)"
proof -
  let ?Q = "\<lambda>it. title_matches P (heap s) normalized it = Inr True"
  from filter_tracks_Inr [OF assms(4)] have fq: "filtered = filter ?Q xs" .
  with filter_positions [of ?Q xs] assms(8) have fp: "filtered = map (nth xs) ps" by simp
  with assms(6) have kp: "k < length ps" by simp
  then have "ps ! k \<in> set ps" by simp
  with assms(8) have pk: "ps ! k < length xs" by auto
  from fp kp have at: "xs ! (ps ! k) = filtered ! k" by simp
  from assms(6) have "filtered ! k \<in> set filtered" by simp
  with fq have mem: "filtered ! k \<in> set xs" by auto
  from indexOf_first [OF mem] obtain i where i: "indexOf xs (filtered ! k) = Some i"
    "i < length xs" "xs ! i = filtered ! k" "\<forall>j<i. xs ! j \<noteq> filtered ! k" by blast
  from i(4) at have le: "i \<le> ps ! k" by (meson not_le_imp_less)
  have dist: "i = ps ! k" if "distinct xs"
  proof -
    from i(3) at have "xs ! i = xs ! (ps ! k)" by simp
    with nth_eq_iff_index_eq [OF that i(2) pk] show ?thesis by simp
  qed
  from assms(6) have ne: "filtered \<noteq> []" by auto
  note res = searchPlaylist_result [OF assms(1) assms(3) [unfolded assms(2)]
      assms(4) [unfolded assms(2)]]
  from assms(5) ne have s': "s' = s\<lparr>mount := Some (root\<lparr>content :=
      PlayerList (map (filtered_item (heap s)) filtered)\<rparr>)\<rparr>"
    by (simp add: assms(7) res)
  then have items: "list_items s' = map (filtered_item (heap s)) filtered"
    by (simp add: list_items_def)
  with assms(6) have h: "onclick (list_items s' ! k) = PlayTrack (filtered ! k)"
    by (simp add: filtered_item_def)
  from assms(1) s' have arr: "array_elems (heap s') (playlist s') = Some xs" by simp
  then obtain a where "playlist s' = JRef a" by (auto simp: array_elems_Some)
  with arr i(1) assms(6) items h have "click P k s' = playListItem (int i) s'"
    by (simp add: click_def)
  with i h pk at le dist show ?thesis by blast
qed


lemma example_filtered:
  "filter_tracks example_platform (heap example_state) ''beta'' [JRef 1, JRef 2] = Inr [JRef 2]"
  by (simp add: title_matches_def example_search del: One_nat_def)

theorem filtered_click_plays_original_index_witness:
  "array_elems (heap example_state) (playlist example_state) = Some [JRef 1, JRef 2]
   \<and> toLowerCase example_platform (trim example_platform '' BETA '') = ''beta''
   \<and> filter_tracks example_platform (heap example_state) ''beta'' [JRef 1, JRef 2] = Inr [JRef 2]
   \<and> onclick (list_items (state_of (searchPlaylist example_platform '' BETA '' example_state)) ! 0)
       = PlayTrack (JRef 2)
   \<and> click example_platform 0 (state_of (searchPlaylist example_platform '' BETA '' example_state))
       = playListItem 1 (state_of (searchPlaylist example_platform '' BETA '' example_state))"
proof -
  have ne: "''beta'' \<noteq> []" and k: "0 < length [JRef 2]" by simp_all
  from filtered_click_plays_original_index [OF example_array example_search(1) [symmetric] ne
      example_filtered example_search(6) k refl refl]
  obtain i where i: "i < length [JRef 1, JRef 2]" "[JRef 1, JRef 2] ! i = [JRef 2] ! 0"
    and h: "onclick (list_items (state_of (searchPlaylist example_platform '' BETA ''
               example_state)) ! 0) = PlayTrack ([JRef 2] ! 0)"
    and c: "click example_platform 0
              (state_of (searchPlaylist example_platform '' BETA '' example_state))
            = playListItem (int i)
                (state_of (searchPlaylist example_platform '' BETA '' example_state))"
    by blast
  from i have "i = 1" by (cases i) auto
  with h c example_array example_search(1) example_filtered show ?thesis by simp
qed

section \<open>Adding tracks\<close>


lemma addToPlaylist_step:
  assumes "playlist s = JRef a" and "cells (heap s) a = JArray xs"
    and "s' = state_of (addToPlaylist P item s)"
  shows "playlist s' = JRef a"
    and "cells (heap s') a = JArray (xs @ [item])"
    and "b \<noteq> a \<Longrightarrow> cells (heap s') b = cells (heap s) b"
    and "JSON_stringify P (heap s') (JRef a) = Some json \<Longrightarrow>
           localStorage s' ''player-playlist'' = Some json"
  using assms
  by (auto simp: addToPlaylist_def push_def buildPlaylistUI_frame split: option.splits)

lemma run_adds:
  assumes "playlist s = JRef a" and "cells (heap s) a = JArray xs"
    and "s' = run P (map AddCall items) s"
  shows "playlist s' = JRef a \<and> cells (heap s') a = JArray (xs @ items)
       \<and> (\<forall>b. b \<noteq> a \<longrightarrow> cells (heap s') b = cells (heap s) b)
       \<and> (items \<noteq> [] \<longrightarrow> (\<forall>json. JSON_stringify P (heap s') (JRef a) = Some json \<longrightarrow>
             localStorage s' ''player-playlist'' = Some json))"
  using assms
proof (induction items arbitrary: s xs)
  case Nil
  then show ?case by simp
next
  case (Cons item items)
  let ?s1 = "state_of (addToPlaylist P item s)"
  note st = addToPlaylist_step [OF Cons.prems(1,2) refl, where P = P and item = item]
  from Cons.prems(3) have s': "s' = run P (map AddCall items) ?s1" by simp
  note ih = Cons.IH [OF st(1) st(2) s']
  show ?case
  proof (cases "items = []")
    case True
    with s' have "s' = ?s1" by simp
    with st show ?thesis by (auto simp: True)
  next
    case False
    with ih st(3) show ?thesis by auto
  qed
qed

text \<open>
  Claim C6. Let the playlist be an array, and let \<^verbatim>\<open>add\<close> be called with
  \<open>items\<close>, one call after the other. Afterwards \<^verbatim>\<open>getPlaylist\<close> returns the same array
  object; its elements are the initial ones, in place, followed by the added ones in
  call order, so its length is the initial length plus the number of calls; no other
  object of the store has changed; and the storage entry of the playlist holds the
  serialisation of the array as the last call left it, whenever \<^verbatim>\<open>JSON.stringify\<close>
  gives one. Every prefix of the calls is itself such a sequence, so this holds after
  each single call. A call that raises while rendering has appended and stored before.
\<close>

theorem addToPlaylist_appends:
  assumes "getPlaylist s = JRef a" and "cells (heap s) a = JArray xs"
    and "s' = run P (map AddCall items) s"
  shows "getPlaylist s' = getPlaylist s
       \<and> array_elems (heap s') (getPlaylist s') = Some (xs @ items)
       \<and> length (xs @ items) = length xs + length items
       \<and> (\<forall>b. b \<noteq> a \<longrightarrow> cells (heap s') b = cells (heap s) b)
       \<and> (items \<noteq> [] \<longrightarrow> (\<forall>json. JSON_stringify P (heap s') (getPlaylist s') = Some json \<longrightarrow>
             localStorage s' ''player-playlist'' = Some json))"
  using run_adds [OF assms(1) [unfolded getPlaylist_def] assms(2,3)] assms(1)
  by (simp add: getPlaylist_def array_elems_def)



lemma booted_facts:
  "getPlaylist (boot example_state) = JRef 3"
  "cells (heap (boot example_state)) 3 = JArray []"
  by (simp_all add: getPlaylist_def boot_def alloc_def initializeTheme_def set_theme_def
      example_state_def example_heap_def localThemeKey_def)

lemma booted_stringify:
  "JSON_stringify example_platform
     (heap (run example_platform (map AddCall [JRef 2, JNum 7]) (boot example_state))) (JRef 3)
   \<noteq> None"
  by code_simp

theorem addToPlaylist_appends_witness:
  "getPlaylist (boot example_state) = JRef 3
   \<and> cells (heap (boot example_state)) 3 = JArray []
   \<and> getPlaylist (run example_platform (map AddCall [JRef 2, JNum 7]) (boot example_state)) = JRef 3
   \<and> array_elems
        (heap (run example_platform (map AddCall [JRef 2, JNum 7]) (boot example_state)))
        (JRef 3) = Some [JRef 2, JNum 7]
   \<and> localStorage (run example_platform (map AddCall [JRef 2, JNum 7]) (boot example_state))
        ''player-playlist''
       = JSON_stringify example_platform
           (heap (run example_platform (map AddCall [JRef 2, JNum 7]) (boot example_state)))
           (JRef 3)
   \<and> JSON_stringify example_platform
        (heap (run example_platform (map AddCall [JRef 2, JNum 7]) (boot example_state)))
        (JRef 3) \<noteq> None"
proof -
  let ?s' = "run example_platform (map AddCall [JRef 2, JNum 7]) (boot example_state)"
  note t = addToPlaylist_appends [OF booted_facts refl, of example_platform "[JRef 2, JNum 7]"]
  from t have "getPlaylist ?s' = getPlaylist (boot example_state)" by (rule conjunct1)
  then have p: "getPlaylist ?s' = JRef 3" by (simp only: booted_facts)
  from t have "array_elems (heap ?s') (getPlaylist ?s') = Some ([] @ [JRef 2, JNum 7])"
    by blast
  then have a: "array_elems (heap ?s') (JRef 3) = Some [JRef 2, JNum 7]"
    by (simp only: p append_Nil)
  from booted_stringify obtain json where
    j: "JSON_stringify example_platform (heap ?s') (JRef 3) = Some json" by blast
  from t have "\<forall>json. JSON_stringify example_platform (heap ?s') (getPlaylist ?s') = Some json
      \<longrightarrow> localStorage ?s' ''player-playlist'' = Some json"
    by blast
  with j have "localStorage ?s' ''player-playlist'' = Some json" by (simp only: p)
  with j p a booted_facts show ?thesis by (simp only: simp_thms option.distinct)
qed

section \<open>The playing flag\<close>


text \<open>
  \<^verbatim>\<open>playListItem\<close> writes \<^verbatim>\<open>isPlaying\<close> only by setting it, on every path.
\<close>

lemma playListItem_isPlaying:
  "isPlaying s \<longrightarrow> isPlaying (state_of (playListItem index s))"
  by (auto simp: playListItem_def Let_def attach_source_def assign_src_def attach_hls_def
      start_playback_def split: completion.splits sum.splits bool.splits option.splits)

lemma searchPlaylist_isPlaying:
  "isPlaying (state_of (searchPlaylist P query s)) = isPlaying s"
  by (auto simp: searchPlaylist_def Let_def buildPlaylistUI_frame
      split: option.splits sum.splits)

lemma addToPlaylist_isPlaying:
  "isPlaying (state_of (addToPlaylist P item s)) = isPlaying s"
  by (auto simp: addToPlaylist_def push_def buildPlaylistUI_frame
      split: option.splits jsval.splits jsobj.splits)

lemma DOMContentLoaded_isPlaying:
  "isPlaying (state_of (DOMContentLoaded P s)) = isPlaying s"
proof -
  have "isPlaying (demo_fallback (load_saved P s)) = isPlaying s"
    by (auto simp: demo_fallback_def load_saved_def alloc_def split: option.splits)
  with buildPlaylistUI_frame(3) [of "''playlist-root''" "demo_fallback (load_saved P s)"]
  show ?thesis
    by (cases "buildPlaylistUI ''playlist-root'' (demo_fallback (load_saved P s))")
      (simp_all add: DOMContentLoaded_def)
qed

lemma run_handler_isPlaying:
  "isPlaying s \<longrightarrow> isPlaying (state_of (run_handler P hdl s))"
  using playListItem_isPlaying
  by (cases hdl) (auto simp: Let_def split: jsval.splits option.splits)

lemma fire_isPlaying:
  "isPlaying s \<Longrightarrow> isPlaying (state_of (fire P ev s))"
proof (cases ev)
  case ContentLoaded
  assume "isPlaying s"
  with ContentLoaded show ?thesis by (simp add: DOMContentLoaded_isPlaying)
next
  case TimerFired
  assume "isPlaying s"
  with TimerFired playListItem_isPlaying [of "s\<lparr>timers := timers s - 1\<rparr>" 0]
  show ?thesis by (simp add: timer_fired_def)
next
  case (Keydown key)
  assume "isPlaying s"
  with Keydown show ?thesis by (simp add: handleKeydown_def Let_def)
next
  case (Click k)
  assume "isPlaying s"
  with Click run_handler_isPlaying show ?thesis by (simp add: click_def)
next
  case ThemeToggleClick
  assume "isPlaying s"
  with ThemeToggleClick show ?thesis
    by (simp add: toggle_theme_def set_theme_def Let_def split: option.splits)
next
  case (ManifestParsed n lv)
  assume "isPlaying s"
  with ManifestParsed show ?thesis by (simp add: manifest_parsed_def Let_def)
next
  case (QualityChange q)
  assume "isPlaying s"
  with QualityChange show ?thesis by simp
next
  case (PlayIndexCall i)
  assume "isPlaying s"
  with PlayIndexCall playListItem_isPlaying show ?thesis by simp
next
  case (SearchCall query)
  assume "isPlaying s"
  with SearchCall show ?thesis by (simp add: searchPlaylist_isPlaying)
next
  case (AddCall item)
  assume "isPlaying s"
  with AddCall show ?thesis by (simp add: addToPlaylist_isPlaying)
next
  case GetPlaylistCall
  assume "isPlaying s"
  with GetPlaylistCall show ?thesis by simp
qed

lemma run_append: "run P (evs @ evs') s = run P evs' (run P evs s)"
  by (induction evs arbitrary: s) simp_all

lemma run_isPlaying: "isPlaying s \<Longrightarrow> isPlaying (run P evs s)"
  by (induction evs arbitrary: s) (simp_all add: fire_isPlaying)

lemma fire_other_isPlaying:
  assumes "ev \<noteq> TimerFired" and "ev \<notin> range Keydown" and "ev \<notin> range Click"
    and "ev \<notin> range PlayIndexCall"
  shows "isPlaying (state_of (fire P ev s)) = isPlaying s"
  using assms
  by (cases ev)
    (auto simp: DOMContentLoaded_isPlaying searchPlaylist_isPlaying addToPlaylist_isPlaying
      toggle_theme_def set_theme_def manifest_parsed_def Let_def split: option.splits)

lemma boot_isPlaying: "\<not> isPlaying (boot page)"
  by (simp add: boot_def alloc_def initializeTheme_def set_theme_def split: option.splits)

text \<open>
  Claim C8. The script starts with \<^verbatim>\<open>isPlaying\<close> false. No event resets it: a handler
  started with the flag true ends, by return or by raise, with the flag true, and so
  once the flag is true after some events it is true after any further events. The
  flag changes only in \<^verbatim>\<open>playListItem\<close> (reached from the exported call, the timer and
  the clicks) and in the keydown handler: every other event leaves it as it was.
\<close>

theorem isPlaying_monotone:
  "\<not> isPlaying (boot page)
   \<and> (isPlaying s \<longrightarrow> isPlaying (state_of (fire P ev s)))
   \<and> (isPlaying (run P evs s) \<longrightarrow> isPlaying (run P (evs @ evs') s))
   \<and> (ev \<noteq> TimerFired \<and> ev \<notin> range Keydown \<and> ev \<notin> range Click
        \<and> ev \<notin> range PlayIndexCall \<longrightarrow>
        isPlaying (state_of (fire P ev s)) = isPlaying s)"
  using boot_isPlaying fire_isPlaying run_isPlaying fire_other_isPlaying
  by (simp add: run_append)


lemma example_run_plays:
  "isPlaying (run example_platform [ContentLoaded, TimerFired] (boot example_state))"
  by code_simp

theorem isPlaying_monotone_witness:
  "\<not> isPlaying (boot example_state)
   \<and> isPlaying (run example_platform [ContentLoaded, TimerFired] (boot example_state))
   \<and> isPlaying (run example_platform
        ([ContentLoaded, TimerFired] @
         [Keydown ''Escape'', SearchCall ''demo'', AddCall JNull, ThemeToggleClick,
          QualityChange JNull, ContentLoaded, Keydown '' ''])
        (boot example_state))"
proof -
  note t = isPlaying_monotone [of example_state "boot example_state" example_platform
      ContentLoaded "[ContentLoaded, TimerFired]"
      "[Keydown ''Escape'', SearchCall ''demo'', AddCall JNull, ThemeToggleClick,
        QualityChange JNull, ContentLoaded, Keydown '' '']"]
  from t have a: "\<not> isPlaying (boot example_state)" by (rule conjunct1)
  from t example_run_plays have "isPlaying (run example_platform
        ([ContentLoaded, TimerFired] @
         [Keydown ''Escape'', SearchCall ''demo'', AddCall JNull, ThemeToggleClick,
          QualityChange JNull, ContentLoaded, Keydown '' ''])
        (boot example_state))"
    by blast
  with a example_run_plays show ?thesis by blast
qed

end
